theory Spec2Isabelle
  imports Main "HOL-Library.Word"
begin

unbundle bit_operations_syntax

section \<open>The xmlsec example programs of django-jbank\<close>

text \<open>
  The repository holds two command-line programs, \<^verbatim>\<open>decrypt3.c\<close> and
  \<^verbatim>\<open>sign3-sha256.c\<close>. Both are straight-line sequences of calls into libxml2 and
  xmlsec, with an error check after each call. The embedding makes two things explicit:
  \<^item> what the library answers: a record \<open>lib\<close> gives the result of every library call
    the programs make (an integer status, or a pointer that may be NULL), together with
    the compile-time switches and constants the programs take from the headers;
  \<^item> what the programs do: every function returns its C return value together with the
    list of events it performed, in order: messages to standard error, writes to
    standard output, and the library calls that initialise, allocate, use, free or shut
    down something.
  Pure look-ups (\<^verbatim>\<open>xmlDocGetRootElement\<close>, \<^verbatim>\<open>xmlSecFindNode\<close>, \<^verbatim>\<open>xmlSecBufferGetData\<close>,
  \<^verbatim>\<open>xmlSecBufferGetSize\<close>) decide the control flow but leave no event.
\<close>

subsection \<open>Library objects\<close>

text \<open>
  Library objects are opaque to the programs and are named by a handle. A C pointer
  to one is an \<open>option\<close>: \<open>None\<close> is NULL.
\<close>

type_synonym xmlSecByte = "8 word"

type_synonym xmlDoc = nat
type_synonym xmlDocPtr = "xmlDoc option"
type_synonym xmlNode = nat
type_synonym xmlNodePtr = "xmlNode option"
type_synonym xmlSecKeysMngr = nat
type_synonym xmlSecKeysMngrPtr = "xmlSecKeysMngr option"
type_synonym xmlSecKey = nat
type_synonym xmlSecKeyPtr = "xmlSecKey option"
type_synonym xmlSecEncCtxRef = nat
type_synonym xmlSecEncCtxPtr = "xmlSecEncCtxRef option"
type_synonym xmlSecDSigCtxRef = nat
type_synonym xmlSecDSigCtxPtr = "xmlSecDSigCtxRef option"

text \<open>
  An xmlsec buffer, as far as the program reads it: \<open>buffer_data\<close> is what
  \<^verbatim>\<open>xmlSecBufferGetData\<close> returns (NULL, or the bytes stored at the pointer) and
  \<open>buffer_size\<close> is what \<^verbatim>\<open>xmlSecBufferGetSize\<close> returns.
\<close>

record xmlSecBuffer =
  buffer_data :: "xmlSecByte list option"
  buffer_size :: nat

definition xmlSecBufferGetData :: "xmlSecBuffer \<Rightarrow> xmlSecByte list option" where
  "xmlSecBufferGetData buf = buffer_data buf"

definition xmlSecBufferGetSize :: "xmlSecBuffer \<Rightarrow> nat" where
  "xmlSecBufferGetSize buf = buffer_size buf"

text \<open>The two fields of the encryption context that \<^verbatim>\<open>decrypt_file\<close> reads.\<close>

record xmlSecEncCtx =
  result :: "xmlSecBuffer option"
  resultReplaced :: int

text \<open>The node names and namespaces the programs pass to \<^verbatim>\<open>xmlSecFindNode\<close>.\<close>

datatype xmlSecName =
    xmlSecNodeEncryptedData
  | xmlSecEncNs
  | xmlSecNodeSignature
  | xmlSecDSigNs

datatype xmlSecKeyDataFormat = xmlSecKeyDataFormatPem

subsection \<open>The library as the programs see it\<close>

text \<open>
  Each field is the answer of the library call of the same name, as a function of the
  arguments the programs pass. Every call site runs at most once in a run, so one answer
  per argument tuple is enough. \<^verbatim>\<open>xmlSecEncCtxDecrypt\<close> answers with its status and
  with the context fields as they are after the call. \<open>xmlDocDump\<close> gives the bytes
  the call writes for the document at the moment it is dumped.
  The first five fields are the preprocessor switches and header constants.
\<close>

record lib =
  XMLSEC_NO_XSLT :: bool
  XMLSEC_CRYPTO_DYNAMIC_LOADING :: bool
  XMLSEC_CRYPTO :: string
  XML_DETECT_IDS :: int
  XML_COMPLETE_ATTRS :: int
  xmlSecInit :: int
  xmlSecCheckVersion :: int
  xmlSecCryptoDLLoadLibrary :: "string \<Rightarrow> int"
  xmlSecCryptoAppInit :: int
  xmlSecCryptoInit :: int
  xmlSecKeysMngrCreate :: xmlSecKeysMngrPtr
  xmlSecCryptoAppDefaultKeysMngrInit :: "xmlSecKeysMngr \<Rightarrow> int"
  xmlSecCryptoAppKeyLoad :: "string \<Rightarrow> xmlSecKeyDataFormat \<Rightarrow> xmlSecKeyPtr"
  xmlSecCryptoAppDefaultKeysMngrAdoptKey :: "xmlSecKeysMngr \<Rightarrow> xmlSecKey \<Rightarrow> int"
  xmlParseFile :: "string \<Rightarrow> xmlDocPtr"
  xmlDocGetRootElement :: "xmlDoc \<Rightarrow> xmlNodePtr"
  xmlSecFindNode :: "xmlNode \<Rightarrow> xmlSecName \<Rightarrow> xmlSecName \<Rightarrow> xmlNodePtr"
  xmlSecEncCtxCreate :: "xmlSecKeysMngrPtr \<Rightarrow> xmlSecEncCtxPtr"
  xmlSecEncCtxDecrypt :: "xmlSecEncCtxRef \<Rightarrow> xmlNode \<Rightarrow> int \<times> xmlSecEncCtx"
  xmlDocDump :: "xmlDoc \<Rightarrow> xmlSecByte list"
  xmlSecDSigCtxCreate :: "xmlSecKeysMngrPtr \<Rightarrow> xmlSecDSigCtxPtr"
  xmlSecCryptoAppKeyCertLoad :: "xmlSecKey \<Rightarrow> string \<Rightarrow> xmlSecKeyDataFormat \<Rightarrow> int"
  xmlSecKeySetName :: "xmlSecKey \<Rightarrow> string \<Rightarrow> int"
  xmlSecDSigCtxSign :: "xmlSecDSigCtxRef \<Rightarrow> xmlNode \<Rightarrow> int"

subsection \<open>Events\<close>

text \<open>
  \<open>Stderr s\<close> is one \<^verbatim>\<open>fprintf(stderr, ...)\<close> with its formatted text.
  \<open>Stdout_fwrite bytes n\<close> is \<^verbatim>\<open>fwrite(ptr, 1, n, stdout)\<close> with the bytes at \<open>ptr\<close>.
  \<open>Stdout_xmlDocDump doc\<close> is \<^verbatim>\<open>xmlDocDump(stdout, doc)\<close>.
  A \<open>Call_\<close> event is the library call of that name; a call that allocates carries the
  pointer it returned.
\<close>

datatype event =
    Stderr string
  | Stdout_fwrite "xmlSecByte list" nat
  | Stdout_xmlDocDump xmlDoc
  | Call_xmlInitParser
  | Call_LIBXML_TEST_VERSION
  | Set_xmlLoadExtDtdDefaultValue int
  | Call_xmlSubstituteEntitiesDefault int
  | Set_xmlIndentTreeOutput int
  | Call_xmlSecInit
  | Call_xmlSecCheckVersion
  | Call_xmlSecCryptoDLLoadLibrary string
  | Call_xmlSecCryptoAppInit
  | Call_xmlSecCryptoInit
  | Call_xmlSecKeysMngrCreate xmlSecKeysMngrPtr
  | Call_xmlSecCryptoAppDefaultKeysMngrInit xmlSecKeysMngr
  | Call_xmlSecCryptoAppKeyLoad string xmlSecKeyPtr
  | Call_xmlSecCryptoAppDefaultKeysMngrAdoptKey xmlSecKeysMngr xmlSecKey
  | Call_xmlSecKeyDestroy xmlSecKey
  | Call_xmlSecKeysMngrDestroy xmlSecKeysMngr
  | Call_xmlParseFile string xmlDocPtr
  | Call_xmlSecEncCtxCreate xmlSecKeysMngrPtr xmlSecEncCtxPtr
  | Call_xmlSecEncCtxDecrypt xmlSecEncCtxRef xmlNode
  | Call_xmlSecEncCtxDestroy xmlSecEncCtxRef
  | Call_xmlFreeDoc xmlDoc
  | Call_xmlSecDSigCtxCreate xmlSecKeysMngrPtr xmlSecDSigCtxPtr
  | Set_signKey xmlSecDSigCtxRef xmlSecKeyPtr
  | Call_xmlSecCryptoAppKeyCertLoad xmlSecKey string
  | Call_xmlSecKeySetName xmlSecKey string
  | Call_xmlSecDSigCtxSign xmlSecDSigCtxRef xmlNode
  | Call_xmlSecDSigCtxDestroy xmlSecDSigCtxRef
  | Call_xmlSecCryptoShutdown
  | Call_xmlSecCryptoAppShutdown
  | Call_xmlSecShutdown
  | Call_xsltCleanupGlobals
  | Call_xmlCleanupParser

text \<open>\<open>after t r\<close>: the events \<open>t\<close> happen, then the computation \<open>r\<close> runs.\<close>

definition after :: "event list \<Rightarrow> 'a \<times> event list \<Rightarrow> 'a \<times> event list" where
  "after t r = (fst r, t @ snd r)"

text \<open>
  \<^verbatim>\<open>argv[0]\<close> in the usage message. With an empty argument vector \<^verbatim>\<open>argv[0]\<close> is
  NULL, which the C library prints as \<^verbatim>\<open>(null)\<close>.
\<close>

definition argv0 :: "string list \<Rightarrow> string" where
  "argv0 argv = (case argv of [] \<Rightarrow> ''(null)'' | a # _ \<Rightarrow> a)"

subsection \<open>Library start-up and shutdown (both programs)\<close>

text \<open>
  Lines 55--100 of \<^verbatim>\<open>decrypt3.c\<close> and, word for word, lines 57--102 of
  \<^verbatim>\<open>sign3-sha256.c\<close>. The result is \<open>Some r\<close> when \<^verbatim>\<open>main\<close> returns \<open>r\<close> from
  inside this block and \<open>None\<close> when control reaches the statement after it.
\<close>

definition xmlsec_startup :: "lib \<Rightarrow> int option \<times> event list" where
  "xmlsec_startup L =
     after ([Call_xmlInitParser,
             Call_LIBXML_TEST_VERSION,
             Set_xmlLoadExtDtdDefaultValue (XML_DETECT_IDS L OR XML_COMPLETE_ATTRS L),
             Call_xmlSubstituteEntitiesDefault 1]
            @ (if \<not> XMLSEC_NO_XSLT L then [Set_xmlIndentTreeOutput 1] else [])
            @ [Call_xmlSecInit])
     (if xmlSecInit L < 0 then
        (Some (- 1), [Stderr ''Error: xmlsec initialization failed.\<newline>''])
      else after [Call_xmlSecCheckVersion]
     (if xmlSecCheckVersion L \<noteq> 1 then
        (Some (- 1), [Stderr ''Error: loaded xmlsec library version is not compatible.\<newline>''])
      else after (if XMLSEC_CRYPTO_DYNAMIC_LOADING L
                  then [Call_xmlSecCryptoDLLoadLibrary (XMLSEC_CRYPTO L)] else [])
     (if XMLSEC_CRYPTO_DYNAMIC_LOADING L \<and> xmlSecCryptoDLLoadLibrary L (XMLSEC_CRYPTO L) < 0 then
        (Some (- 1),
         [Stderr (''Error: unable to load default xmlsec-crypto library. Make sure\<newline>''
                  @ ''that you have it installed and check shared libraries path\<newline>''
                  @ ''(LD_LIBRARY_PATH) envornment variable.\<newline>'')])
      else after [Call_xmlSecCryptoAppInit]
     (if xmlSecCryptoAppInit L < 0 then
        (Some (- 1), [Stderr ''Error: crypto initialization failed.\<newline>''])
      else after [Call_xmlSecCryptoInit]
     (if xmlSecCryptoInit L < 0 then
        (Some (- 1), [Stderr ''Error: xmlsec-crypto initialization failed.\<newline>''])
      else (None, []))))))"

text \<open>
  Lines 116--129 of \<^verbatim>\<open>decrypt3.c\<close> and lines 108--121 of \<^verbatim>\<open>sign3-sha256.c\<close>.
\<close>

definition xmlsec_shutdown :: "lib \<Rightarrow> event list" where
  "xmlsec_shutdown L =
     [Call_xmlSecCryptoShutdown, Call_xmlSecCryptoAppShutdown, Call_xmlSecShutdown]
     @ (if \<not> XMLSEC_NO_XSLT L then [Call_xsltCleanupGlobals] else [])
     @ [Call_xmlCleanupParser]"

subsection \<open>decrypt3.c\<close>

text \<open>\<^verbatim>\<open>create_keys_mngr\<close>, lines 220--256.\<close>

definition create_keys_mngr :: "lib \<Rightarrow> string \<Rightarrow> xmlSecKeysMngrPtr \<times> event list" where
  \<open>create_keys_mngr L key_file =
     after [Call_xmlSecKeysMngrCreate (xmlSecKeysMngrCreate L)]
     (case xmlSecKeysMngrCreate L of
        None \<Rightarrow> (None, [Stderr ''Error: failed to create keys manager.\<newline>''])
      | Some mngr \<Rightarrow>
     after [Call_xmlSecCryptoAppDefaultKeysMngrInit mngr]
     (if xmlSecCryptoAppDefaultKeysMngrInit L mngr < 0 then
        (None, [Stderr ''Error: failed to initialize keys manager.\<newline>'',
                Call_xmlSecKeysMngrDestroy mngr])
      else
     after [Call_xmlSecCryptoAppKeyLoad key_file
              (xmlSecCryptoAppKeyLoad L key_file xmlSecKeyDataFormatPem)]
     (case xmlSecCryptoAppKeyLoad L key_file xmlSecKeyDataFormatPem of
        None \<Rightarrow>
          (None, [Stderr (''Error: failed to load rsa key from file "'' @ key_file @ ''"\<newline>''),
                  Call_xmlSecKeysMngrDestroy mngr])
      | Some key \<Rightarrow>
     after [Call_xmlSecCryptoAppDefaultKeysMngrAdoptKey mngr key]
     (if xmlSecCryptoAppDefaultKeysMngrAdoptKey L mngr key < 0 then
        (None, [Stderr (''Error: failed to add key from "'' @ key_file @ ''" to keys manager\<newline>''),
                Call_xmlSecKeyDestroy key,
                Call_xmlSecKeysMngrDestroy mngr])
      else (Some mngr, [])))))\<close>

text \<open>
  The label \<^verbatim>\<open>done:\<close> of \<^verbatim>\<open>decrypt_file\<close>, lines 200--209. The body of the first
  \<^verbatim>\<open>if\<close> is empty in the source: its only statement, \<^verbatim>\<open>xmlSecEncCtxDestroy(encCtx)\<close>,
  is commented out.
\<close>

definition decrypt_file_done :: "xmlSecEncCtxPtr \<Rightarrow> xmlDocPtr \<Rightarrow> int \<Rightarrow> int \<times> event list" where
  "decrypt_file_done encCtx doc res =
     (res,
      (case encCtx of None \<Rightarrow> [] | Some c \<Rightarrow> [])
      @ (case doc of None \<Rightarrow> [] | Some d \<Rightarrow> [Call_xmlFreeDoc d]))"

text \<open>
  \<^verbatim>\<open>decrypt_file\<close>, lines 144--210. The manager parameter is a handle, not a pointer:
  \<^verbatim>\<open>main\<close> calls the function only after its NULL check, and file names are strings, so
  the two \<^verbatim>\<open>assert\<close>s of the source hold by typing. The second disjunct of each
  \<^verbatim>\<open>||\<close> is evaluated only when the first is false, as in C; both disjuncts of the
  decrypt check lead to the same branch, here \<open>failed\<close>.
\<close>

definition decrypt_file :: "lib \<Rightarrow> xmlSecKeysMngr \<Rightarrow> string \<Rightarrow> int \<times> event list" where
  \<open>decrypt_file L mngr enc_file =
     after [Call_xmlParseFile enc_file (xmlParseFile L enc_file)]
     (case xmlParseFile L enc_file of
        None \<Rightarrow>
          after [Stderr (''Error: unable to parse file "'' @ enc_file @ ''"\<newline>'')]
            (decrypt_file_done None None (- 1))
      | Some doc \<Rightarrow>
     (case xmlDocGetRootElement L doc of
        None \<Rightarrow>
          after [Stderr (''Error: unable to parse file "'' @ enc_file @ ''"\<newline>'')]
            (decrypt_file_done None (Some doc) (- 1))
      | Some root \<Rightarrow>
     (case xmlSecFindNode L root xmlSecNodeEncryptedData xmlSecEncNs of
        None \<Rightarrow>
          after [Stderr (''Error: start node not found in "'' @ enc_file @ ''"\<newline>'')]
            (decrypt_file_done None (Some doc) (- 1))
      | Some node \<Rightarrow>
     after [Call_xmlSecEncCtxCreate (Some mngr) (xmlSecEncCtxCreate L (Some mngr))]
     (case xmlSecEncCtxCreate L (Some mngr) of
        None \<Rightarrow>
          after [Stderr ''Error: failed to create encryption context\<newline>'']
            (decrypt_file_done None (Some doc) (- 1))
      | Some encCtx \<Rightarrow>
     after [Call_xmlSecEncCtxDecrypt encCtx node]
     (let (ret, ctx) = xmlSecEncCtxDecrypt L encCtx node;
          failed = after [Stderr ''Error: decryption failed\<newline>'']
                     (decrypt_file_done (Some encCtx) (Some doc) (- 1))
      in
      if ret < 0 then failed
      else
     (case result ctx of
        None \<Rightarrow> failed
      | Some buf \<Rightarrow>
     after
       (if resultReplaced ctx \<noteq> 0 then [Stdout_xmlDocDump doc]
        else (case xmlSecBufferGetData buf of
                None \<Rightarrow> []
              | Some bytes \<Rightarrow> [Stdout_fwrite bytes (xmlSecBufferGetSize buf)]))
       (decrypt_file_done (Some encCtx) (Some doc) 0)))))))\<close>

text \<open>
  \<^verbatim>\<open>main\<close> of \<^verbatim>\<open>decrypt3.c\<close>, lines 44--132. The argument vector is a list of strings
  and \<open>argc\<close> is its length, so \<^verbatim>\<open>assert(argv)\<close> holds and \<^verbatim>\<open>argv[1]\<close>, \<^verbatim>\<open>argv[2]\<close> are
  read only where the length is 3. The value returned is the value \<^verbatim>\<open>main\<close> returns.
\<close>

definition decrypt3_main :: "lib \<Rightarrow> string list \<Rightarrow> int \<times> event list" where
  \<open>decrypt3_main L argv =
     (if length argv \<noteq> 3 then
        (1, [Stderr ''Error: wrong number of arguments.\<newline>'',
             Stderr (''Usage: '' @ argv0 argv @ '' <enc-file> <key-file>\<newline>'')])
      else
     after (snd (xmlsec_startup L))
     (case fst (xmlsec_startup L) of
        Some r \<Rightarrow> (r, [])
      | None \<Rightarrow>
     after (snd (create_keys_mngr L (argv ! 2)))
     (case fst (create_keys_mngr L (argv ! 2)) of
        None \<Rightarrow> (- 1, [])
      | Some mngr \<Rightarrow>
     after (snd (decrypt_file L mngr (argv ! 1)))
     (if fst (decrypt_file L mngr (argv ! 1)) < 0 then
        (- 1, [Call_xmlSecKeysMngrDestroy mngr])
      else
        (0, [Call_xmlSecKeysMngrDestroy mngr] @ xmlsec_shutdown L)))))\<close>

subsection \<open>sign3-sha256.c\<close>

text \<open>The label \<^verbatim>\<open>done:\<close> of \<^verbatim>\<open>sign_file\<close>, lines 287--296.\<close>

definition sign_file_done :: "xmlSecDSigCtxPtr \<Rightarrow> xmlDocPtr \<Rightarrow> int \<Rightarrow> int \<times> event list" where
  "sign_file_done dsigCtx doc res =
     (res,
      (case dsigCtx of None \<Rightarrow> [] | Some c \<Rightarrow> [Call_xmlSecDSigCtxDestroy c])
      @ (case doc of None \<Rightarrow> [] | Some d \<Rightarrow> [Call_xmlFreeDoc d]))"

text \<open>
  \<^verbatim>\<open>sign_file\<close>, lines 138--297. The block under \<^verbatim>\<open>#if 0\<close> (lines 162--239) is
  not compiled; the \<^verbatim>\<open>#else\<close> branch looks the signature node up in the document.
\<close>

definition sign_file :: "lib \<Rightarrow> string \<Rightarrow> string \<Rightarrow> string \<Rightarrow> int \<times> event list" where
  \<open>sign_file L xml_file key_file cert_file =
     after [Call_xmlParseFile xml_file (xmlParseFile L xml_file)]
     (case xmlParseFile L xml_file of
        None \<Rightarrow>
          after [Stderr (''Error: unable to parse file "'' @ xml_file @ ''"\<newline>'')]
            (sign_file_done None None (- 1))
      | Some doc \<Rightarrow>
     (case xmlDocGetRootElement L doc of
        None \<Rightarrow>
          after [Stderr (''Error: unable to parse file "'' @ xml_file @ ''"\<newline>'')]
            (sign_file_done None (Some doc) (- 1))
      | Some root \<Rightarrow>
     (case xmlSecFindNode L root xmlSecNodeSignature xmlSecDSigNs of
        None \<Rightarrow>
          after [Stderr (''Error: start node not found in "'' @ xml_file @ ''"\<newline>'')]
            (sign_file_done None (Some doc) (- 1))
      | Some signNode \<Rightarrow>
     after [Call_xmlSecDSigCtxCreate None (xmlSecDSigCtxCreate L None)]
     (case xmlSecDSigCtxCreate L None of
        None \<Rightarrow>
          after [Stderr ''Error: failed to create signature context\<newline>'']
            (sign_file_done None (Some doc) (- 1))
      | Some dsigCtx \<Rightarrow>
     after [Call_xmlSecCryptoAppKeyLoad key_file
              (xmlSecCryptoAppKeyLoad L key_file xmlSecKeyDataFormatPem),
            Set_signKey dsigCtx (xmlSecCryptoAppKeyLoad L key_file xmlSecKeyDataFormatPem)]
     (case xmlSecCryptoAppKeyLoad L key_file xmlSecKeyDataFormatPem of
        None \<Rightarrow>
          after [Stderr (''Error: failed to load private pem key from "'' @ key_file @ ''"\<newline>'')]
            (sign_file_done (Some dsigCtx) (Some doc) (- 1))
      | Some signKey \<Rightarrow>
     after [Call_xmlSecCryptoAppKeyCertLoad signKey cert_file]
     (if xmlSecCryptoAppKeyCertLoad L signKey cert_file xmlSecKeyDataFormatPem < 0 then
        after [Stderr (''Error: failed to load pem certificate "'' @ cert_file @ ''"\<newline>'')]
          (sign_file_done (Some dsigCtx) (Some doc) (- 1))
      else
     after [Call_xmlSecKeySetName signKey key_file]
     (if xmlSecKeySetName L signKey key_file < 0 then
        after [Stderr (''Error: failed to set key name for key from "'' @ key_file @ ''"\<newline>'')]
          (sign_file_done (Some dsigCtx) (Some doc) (- 1))
      else
     after [Call_xmlSecDSigCtxSign dsigCtx signNode]
     (if xmlSecDSigCtxSign L dsigCtx signNode < 0 then
        after [Stderr ''Error: signature failed\<newline>'']
          (sign_file_done (Some dsigCtx) (Some doc) (- 1))
      else
     after [Stdout_xmlDocDump doc]
       (sign_file_done (Some dsigCtx) (Some doc) 0)))))))))\<close>

text \<open>
  \<^verbatim>\<open>main\<close> of \<^verbatim>\<open>sign3-sha256.c\<close>, lines 47--124; \<^verbatim>\<open>argv[1]\<close> to \<^verbatim>\<open>argv[3]\<close> are read
  only where the length is 4.
\<close>

definition sign3_main :: "lib \<Rightarrow> string list \<Rightarrow> int \<times> event list" where
  \<open>sign3_main L argv =
     (if length argv \<noteq> 4 then
        (1, [Stderr ''Error: wrong number of arguments.\<newline>'',
             Stderr (''Usage: '' @ argv0 argv @ '' <xml-file> <key-file> <cert-file>\<newline>'')])
      else
     after (snd (xmlsec_startup L))
     (case fst (xmlsec_startup L) of
        Some r \<Rightarrow> (r, [])
      | None \<Rightarrow>
     after (snd (sign_file L (argv ! 1) (argv ! 2) (argv ! 3)))
     (if fst (sign_file L (argv ! 1) (argv ! 2) (argv ! 3)) < 0 then (- 1, [])
      else (0, xmlsec_shutdown L))))\<close>

section \<open>Observations on a run\<close>

subsection \<open>Standard output and standard error\<close>

definition is_stdout :: "event \<Rightarrow> bool" where
  "is_stdout e = (case e of Stdout_fwrite bytes n \<Rightarrow> True | Stdout_xmlDocDump doc \<Rightarrow> True | _ \<Rightarrow> False)"

definition stdout_events :: "event list \<Rightarrow> event list" where
  "stdout_events t = filter is_stdout t"

text \<open>
  The bytes one event puts on standard output: \<^verbatim>\<open>fwrite(ptr, 1, n, stdout)\<close> writes the
  first \<open>n\<close> bytes at \<open>ptr\<close>, \<^verbatim>\<open>xmlDocDump\<close> writes the serialised document.
\<close>

definition written :: "lib \<Rightarrow> event \<Rightarrow> xmlSecByte list" where
  "written L e =
     (case e of
        Stdout_fwrite bytes n \<Rightarrow> take n bytes
      | Stdout_xmlDocDump doc \<Rightarrow> xmlDocDump L doc
      | _ \<Rightarrow> [])"

definition stdout_bytes :: "lib \<Rightarrow> event list \<Rightarrow> xmlSecByte list" where
  "stdout_bytes L t = concat (map (written L) t)"

definition stderr_message :: "event \<Rightarrow> string option" where
  "stderr_message e = (case e of Stderr s \<Rightarrow> Some s | _ \<Rightarrow> None)"

definition stderr_messages :: "event list \<Rightarrow> string list" where
  "stderr_messages t = List.map_filter stderr_message t"

text \<open>
  The bytes a result buffer holds: the first \<open>buffer_size\<close> bytes at its data pointer.
  A buffer whose data pointer is NULL has no storage and holds no bytes (xmlsec leaves the
  data pointer NULL only as long as the buffer is empty).
\<close>

definition buffer_bytes :: "xmlSecBuffer \<Rightarrow> xmlSecByte list" where
  "buffer_bytes buf =
     (case xmlSecBufferGetData buf of
        None \<Rightarrow> []
      | Some bytes \<Rightarrow> take (xmlSecBufferGetSize buf) bytes)"

subsection \<open>Which steps succeed, read off the library's answers\<close>

text \<open>Every check of the start-up block passes.\<close>

definition startup_ok :: "lib \<Rightarrow> bool" where
  "startup_ok L =
     (0 \<le> xmlSecInit L \<and> xmlSecCheckVersion L = 1
      \<and> \<not> (XMLSEC_CRYPTO_DYNAMIC_LOADING L \<and> xmlSecCryptoDLLoadLibrary L (XMLSEC_CRYPTO L) < 0)
      \<and> 0 \<le> xmlSecCryptoAppInit L \<and> 0 \<le> xmlSecCryptoInit L)"

text \<open>
  The keys manager is created and initialised, the key is loaded from \<open>key_file\<close> and
  the manager adopts it: the result is the manager and the key.
\<close>

definition keys_mngr_loaded :: "lib \<Rightarrow> string \<Rightarrow> (xmlSecKeysMngr \<times> xmlSecKey) option" where
  "keys_mngr_loaded L key_file =
     (case xmlSecKeysMngrCreate L of
        None \<Rightarrow> None
      | Some mngr \<Rightarrow>
          if xmlSecCryptoAppDefaultKeysMngrInit L mngr < 0 then None
          else (case xmlSecCryptoAppKeyLoad L key_file xmlSecKeyDataFormatPem of
                  None \<Rightarrow> None
                | Some key \<Rightarrow>
                    if xmlSecCryptoAppDefaultKeysMngrAdoptKey L mngr key < 0 then None
                    else Some (mngr, key)))"

text \<open>
  The file parses to a document with a root element under which the node \<open>name\<close> in
  namespace \<open>ns\<close> is found: the result is the document and the node.
\<close>

definition start_node :: "lib \<Rightarrow> string \<Rightarrow> xmlSecName \<Rightarrow> xmlSecName \<Rightarrow> (xmlDoc \<times> xmlNode) option" where
  "start_node L file name ns =
     (case xmlParseFile L file of
        None \<Rightarrow> None
      | Some doc \<Rightarrow>
          (case xmlDocGetRootElement L doc of
             None \<Rightarrow> None
           | Some root \<Rightarrow>
               (case xmlSecFindNode L root name ns of
                  None \<Rightarrow> None
                | Some node \<Rightarrow> Some (doc, node))))"

text \<open>The file does not parse, or parses to a document without a root element.\<close>

definition unparsable :: "lib \<Rightarrow> string \<Rightarrow> bool" where
  "unparsable L file =
     (case xmlParseFile L file of
        None \<Rightarrow> True
      | Some doc \<Rightarrow> xmlDocGetRootElement L doc = None)"

text \<open>The file parses to a document with a root element that lacks the node.\<close>

definition node_missing :: "lib \<Rightarrow> string \<Rightarrow> xmlSecName \<Rightarrow> xmlSecName \<Rightarrow> bool" where
  "node_missing L file name ns =
     (case xmlParseFile L file of
        None \<Rightarrow> False
      | Some doc \<Rightarrow>
          (case xmlDocGetRootElement L doc of
             None \<Rightarrow> False
           | Some root \<Rightarrow> xmlSecFindNode L root name ns = None))"

text \<open>
  The decrypt call of \<^verbatim>\<open>decrypt_file\<close> is reached: the result is the document, the
  context, the status the call returns and the context fields after it.
\<close>

definition decrypt_call :: "lib \<Rightarrow> xmlSecKeysMngr \<Rightarrow> string \<Rightarrow>
    (xmlDoc \<times> xmlSecEncCtxRef \<times> xmlNode \<times> int \<times> xmlSecEncCtx) option" where
  "decrypt_call L mngr enc_file =
     (case start_node L enc_file xmlSecNodeEncryptedData xmlSecEncNs of
        None \<Rightarrow> None
      | Some (doc, node) \<Rightarrow>
          (case xmlSecEncCtxCreate L (Some mngr) of
             None \<Rightarrow> None
           | Some encCtx \<Rightarrow>
               Some (doc, encCtx, node,
                     fst (xmlSecEncCtxDecrypt L encCtx node),
                     snd (xmlSecEncCtxDecrypt L encCtx node))))"

text \<open>
  The decrypt call is reached, returns a non-negative status and leaves a result
  buffer: the result is the document, the context fields and the buffer.
\<close>

definition decrypted :: "lib \<Rightarrow> xmlSecKeysMngr \<Rightarrow> string \<Rightarrow>
    (xmlDoc \<times> xmlSecEncCtx \<times> xmlSecBuffer) option" where
  "decrypted L mngr enc_file =
     (case decrypt_call L mngr enc_file of
        None \<Rightarrow> None
      | Some (doc, encCtx, node, ret, ctx) \<Rightarrow>
          if ret < 0 then None
          else (case result ctx of None \<Rightarrow> None | Some buf \<Rightarrow> Some (doc, ctx, buf)))"

text \<open>Every step of \<^verbatim>\<open>sign_file\<close> succeeds: the result is the signed document.\<close>

definition signed_doc :: "lib \<Rightarrow> string \<Rightarrow> string \<Rightarrow> string \<Rightarrow> xmlDoc option" where
  "signed_doc L xml_file key_file cert_file =
     (case start_node L xml_file xmlSecNodeSignature xmlSecDSigNs of
        None \<Rightarrow> None
      | Some (doc, signNode) \<Rightarrow>
          (case xmlSecDSigCtxCreate L None of
             None \<Rightarrow> None
           | Some dsigCtx \<Rightarrow>
               (case xmlSecCryptoAppKeyLoad L key_file xmlSecKeyDataFormatPem of
                  None \<Rightarrow> None
                | Some signKey \<Rightarrow>
                    if xmlSecCryptoAppKeyCertLoad L signKey cert_file xmlSecKeyDataFormatPem < 0
                       \<or> xmlSecKeySetName L signKey key_file < 0
                       \<or> xmlSecDSigCtxSign L dsigCtx signNode < 0
                    then None else Some doc)))"

text \<open>A whole run of each program succeeds.\<close>

definition decrypt3_succeeds :: "lib \<Rightarrow> string list \<Rightarrow> bool" where
  "decrypt3_succeeds L argv =
     (startup_ok L \<and>
      (case keys_mngr_loaded L (argv ! 2) of
         None \<Rightarrow> False
       | Some (mngr, key) \<Rightarrow> decrypted L mngr (argv ! 1) \<noteq> None))"

definition sign3_succeeds :: "lib \<Rightarrow> string list \<Rightarrow> bool" where
  "sign3_succeeds L argv =
     (startup_ok L \<and> signed_doc L (argv ! 1) (argv ! 2) (argv ! 3) \<noteq> None)"

subsection \<open>Failure conditions of the decrypt program\<close>

datatype failure =
    Unparsable_xml
  | Missing_encrypted_data
  | Key_load_failure
  | Decryption_failure

text \<open>
  The run with arguments \<open>argv\<close> gets as far as the step in question and the step
  fails there.
\<close>

definition failure_occurs :: "lib \<Rightarrow> string list \<Rightarrow> failure \<Rightarrow> bool" where
  "failure_occurs L argv c =
     (startup_ok L \<and>
      (case c of
         Key_load_failure \<Rightarrow>
           (case xmlSecKeysMngrCreate L of
              None \<Rightarrow> False
            | Some mngr \<Rightarrow>
                0 \<le> xmlSecCryptoAppDefaultKeysMngrInit L mngr
                \<and> xmlSecCryptoAppKeyLoad L (argv ! 2) xmlSecKeyDataFormatPem = None)
       | Unparsable_xml \<Rightarrow>
           keys_mngr_loaded L (argv ! 2) \<noteq> None \<and> unparsable L (argv ! 1)
       | Missing_encrypted_data \<Rightarrow>
           keys_mngr_loaded L (argv ! 2) \<noteq> None
           \<and> node_missing L (argv ! 1) xmlSecNodeEncryptedData xmlSecEncNs
       | Decryption_failure \<Rightarrow>
           (case keys_mngr_loaded L (argv ! 2) of
              None \<Rightarrow> False
            | Some (mngr, key) \<Rightarrow>
                (case decrypt_call L mngr (argv ! 1) of
                   None \<Rightarrow> False
                 | Some (doc, encCtx, node, ret, ctx) \<Rightarrow> ret < 0 \<or> result ctx = None))))"

text \<open>The message the source prints for each condition.\<close>

definition failure_message :: "failure \<Rightarrow> string \<Rightarrow> string \<Rightarrow> string" where
  \<open>failure_message c enc_file key_file =
     (case c of
        Unparsable_xml \<Rightarrow> ''Error: unable to parse file "'' @ enc_file @ ''"\<newline>''
      | Missing_encrypted_data \<Rightarrow> ''Error: start node not found in "'' @ enc_file @ ''"\<newline>''
      | Key_load_failure \<Rightarrow> ''Error: failed to load rsa key from file "'' @ key_file @ ''"\<newline>''
      | Decryption_failure \<Rightarrow> ''Error: decryption failed\<newline>'')\<close>

text \<open>
  A C return value is an \<^verbatim>\<open>int\<close> or a pointer. \<open>failing_return\<close> is the value returned
  by the function of \<^verbatim>\<open>decrypt3.c\<close> in which a failing run fails: \<^verbatim>\<open>create_keys_mngr\<close>
  when it returns NULL, \<^verbatim>\<open>decrypt_file\<close> otherwise.
\<close>

datatype c_value = Int_value int | Pointer_value "nat option"

definition negative :: "c_value \<Rightarrow> bool" where
  "negative v = (case v of Int_value i \<Rightarrow> i < 0 | Pointer_value p \<Rightarrow> False)"

definition failing_return :: "lib \<Rightarrow> string list \<Rightarrow> c_value" where
  "failing_return L argv =
     (case fst (create_keys_mngr L (argv ! 2)) of
        None \<Rightarrow> Pointer_value None
      | Some mngr \<Rightarrow> Int_value (fst (decrypt_file L mngr (argv ! 1))))"

subsection \<open>Resources\<close>

text \<open>
  The resources of a run and the events that acquire and release them. \<open>live rs t\<close>
  is what is still held after the events \<open>t\<close>, starting from \<open>rs\<close>; \<open>leaked t\<close> is what
  a whole run still holds when it returns.
\<close>

datatype resource =
    Document xmlDoc
  | Encryption_context xmlSecEncCtxRef
  | Signature_context xmlSecDSigCtxRef
  | Keys_manager xmlSecKeysMngr

definition acquired_by :: "event \<Rightarrow> resource option" where
  "acquired_by e =
     (case e of
        Call_xmlParseFile file doc \<Rightarrow> map_option Document doc
      | Call_xmlSecKeysMngrCreate mngr \<Rightarrow> map_option Keys_manager mngr
      | Call_xmlSecEncCtxCreate mngr encCtx \<Rightarrow> map_option Encryption_context encCtx
      | Call_xmlSecDSigCtxCreate mngr dsigCtx \<Rightarrow> map_option Signature_context dsigCtx
      | _ \<Rightarrow> None)"

definition released_by :: "event \<Rightarrow> resource option" where
  "released_by e =
     (case e of
        Call_xmlFreeDoc doc \<Rightarrow> Some (Document doc)
      | Call_xmlSecKeysMngrDestroy mngr \<Rightarrow> Some (Keys_manager mngr)
      | Call_xmlSecEncCtxDestroy encCtx \<Rightarrow> Some (Encryption_context encCtx)
      | Call_xmlSecDSigCtxDestroy dsigCtx \<Rightarrow> Some (Signature_context dsigCtx)
      | _ \<Rightarrow> None)"

definition step_live :: "resource list \<Rightarrow> event \<Rightarrow> resource list" where
  "step_live rs e =
     (case released_by e of
        Some r \<Rightarrow> remove1 r rs
      | None \<Rightarrow> (case acquired_by e of Some r \<Rightarrow> rs @ [r] | None \<Rightarrow> rs))"

primrec live :: "resource list \<Rightarrow> event list \<Rightarrow> resource list" where
  "live rs [] = rs"
| "live rs (e # t) = live (step_live rs e) t"

definition leaked :: "event list \<Rightarrow> resource list" where
  "leaked t = live [] t"

subsection \<open>The life of the keys manager\<close>

text \<open>
  The events that create, fill, use and destroy the keys manager. An encryption context
  is bound to the manager when it is created, and a decrypt call through that context is
  a use of the manager.
\<close>

definition mngr_event :: "event \<Rightarrow> bool" where
  "mngr_event e =
     (case e of
        Call_xmlSecKeysMngrCreate mngr \<Rightarrow> True
      | Call_xmlSecCryptoAppDefaultKeysMngrInit mngr \<Rightarrow> True
      | Call_xmlSecCryptoAppKeyLoad file key \<Rightarrow> True
      | Call_xmlSecCryptoAppDefaultKeysMngrAdoptKey mngr key \<Rightarrow> True
      | Call_xmlSecKeyDestroy key \<Rightarrow> True
      | Call_xmlSecEncCtxCreate mngr encCtx \<Rightarrow> True
      | Call_xmlSecEncCtxDecrypt encCtx node \<Rightarrow> True
      | Call_xmlSecKeysMngrDestroy mngr \<Rightarrow> True
      | _ \<Rightarrow> False)"

definition mngr_history :: "event list \<Rightarrow> event list" where
  "mngr_history t = filter mngr_event t"

definition is_mngr_create :: "event \<Rightarrow> bool" where
  "is_mngr_create e = (case e of Call_xmlSecKeysMngrCreate mngr \<Rightarrow> True | _ \<Rightarrow> False)"

definition is_adopt_key :: "event \<Rightarrow> bool" where
  "is_adopt_key e =
     (case e of Call_xmlSecCryptoAppDefaultKeysMngrAdoptKey mngr key \<Rightarrow> True | _ \<Rightarrow> False)"

definition is_decrypt :: "event \<Rightarrow> bool" where
  "is_decrypt e = (case e of Call_xmlSecEncCtxDecrypt encCtx node \<Rightarrow> True | _ \<Rightarrow> False)"

definition is_mngr_destroy :: "event \<Rightarrow> bool" where
  "is_mngr_destroy e = (case e of Call_xmlSecKeysMngrDestroy mngr \<Rightarrow> True | _ \<Rightarrow> False)"

text \<open>The run gets to the keys-manager stage: \<^verbatim>\<open>xmlSecKeysMngrCreate\<close> is called.\<close>

definition reaches_keys_mngr_stage :: "event list \<Rightarrow> bool" where
  "reaches_keys_mngr_stage t = list_ex is_mngr_create t"

definition count_events :: "(event \<Rightarrow> bool) \<Rightarrow> event list \<Rightarrow> nat" where
  "count_events P t = length (filter P t)"

text \<open>
  The life of a keys manager that is created, filled with one key loaded from
  \<open>key_file\<close>, used for one decrypt call and destroyed.
\<close>

definition mngr_life ::
  "string \<Rightarrow> xmlSecKeysMngr \<Rightarrow> xmlSecKey \<Rightarrow> xmlSecEncCtxRef \<Rightarrow> xmlNode \<Rightarrow> event list" where
  "mngr_life key_file mngr key encCtx node =
     [Call_xmlSecKeysMngrCreate (Some mngr),
      Call_xmlSecCryptoAppDefaultKeysMngrInit mngr,
      Call_xmlSecCryptoAppKeyLoad key_file (Some key),
      Call_xmlSecCryptoAppDefaultKeysMngrAdoptKey mngr key,
      Call_xmlSecEncCtxCreate (Some mngr) (Some encCtx),
      Call_xmlSecEncCtxDecrypt encCtx node,
      Call_xmlSecKeysMngrDestroy mngr]"

subsection \<open>Library layers\<close>

text \<open>
  The four layers the programs initialise and shut down, the call that initialises each
  and the calls that shut each down. libxslt has no initialisation call of its own in
  the programs; its clean-up belongs to the libxslt/libxml layer.
\<close>

datatype layer = Libxml | Xmlsec | Crypto | Xmlsec_crypto

definition init_layer :: "event \<Rightarrow> layer option" where
  "init_layer e =
     (case e of
        Call_xmlInitParser \<Rightarrow> Some Libxml
      | Call_xmlSecInit \<Rightarrow> Some Xmlsec
      | Call_xmlSecCryptoAppInit \<Rightarrow> Some Crypto
      | Call_xmlSecCryptoInit \<Rightarrow> Some Xmlsec_crypto
      | _ \<Rightarrow> None)"

definition shutdown_layer :: "event \<Rightarrow> layer option" where
  "shutdown_layer e =
     (case e of
        Call_xmlSecCryptoShutdown \<Rightarrow> Some Xmlsec_crypto
      | Call_xmlSecCryptoAppShutdown \<Rightarrow> Some Crypto
      | Call_xmlSecShutdown \<Rightarrow> Some Xmlsec
      | Call_xsltCleanupGlobals \<Rightarrow> Some Libxml
      | Call_xmlCleanupParser \<Rightarrow> Some Libxml
      | _ \<Rightarrow> None)"

definition is_shutdown :: "event \<Rightarrow> bool" where
  "is_shutdown e = (shutdown_layer e \<noteq> None)"

text \<open>
  A trace is cut at its first shutdown call. \<open>orderly_shutdown\<close>: there is a shutdown part;
  it holds shutdown calls only; every write to standard output lies before it; and its
  layers, in order, are the layers initialised before it in reverse order, namely
  xmlsec-crypto, crypto, xmlsec, libxslt/libxml.
\<close>

definition before_shutdown :: "event list \<Rightarrow> event list" where
  "before_shutdown t = takeWhile (\<lambda>e. \<not> is_shutdown e) t"

definition shutdown_part :: "event list \<Rightarrow> event list" where
  "shutdown_part t = dropWhile (\<lambda>e. \<not> is_shutdown e) t"

definition orderly_shutdown :: "event list \<Rightarrow> bool" where
  "orderly_shutdown t =
     (shutdown_part t \<noteq> []
      \<and> list_all is_shutdown (shutdown_part t)
      \<and> stdout_events (before_shutdown t) = stdout_events t
      \<and> remdups_adj (List.map_filter shutdown_layer (shutdown_part t))
          = rev (List.map_filter init_layer (before_shutdown t))
      \<and> remdups_adj (List.map_filter shutdown_layer (shutdown_part t))
          = [Xmlsec_crypto, Crypto, Xmlsec, Libxml])"

section \<open>A concrete library, for running the programs\<close>

text \<open>
  One file system and one library behaviour on which the programs can be evaluated.
  The key file \<^verbatim>\<open>key.pem\<close> and the certificate load; no other key file does.
  The XML files:
  \<^item> \<^verbatim>\<open>enc.xml\<close>: encrypted binary payload of three bytes;
  \<^item> \<^verbatim>\<open>encxml.xml\<close>: encrypted XML payload, which replaces the encrypted node;
  \<^item> \<^verbatim>\<open>empty.xml\<close>: decrypts to a result buffer whose data pointer is NULL;
  \<^item> \<^verbatim>\<open>bad.xml\<close>: the decrypt call returns a negative status;
  \<^item> \<^verbatim>\<open>nullres.xml\<close>: the decrypt call returns 0 and leaves the result NULL;
  \<^item> \<^verbatim>\<open>noroot.xml\<close>: parses to a document without a root element;
  \<^item> \<^verbatim>\<open>doc.xml\<close>: holds a signature template and no encrypted data;
  \<^item> any other name does not parse.
\<close>

definition example_parse :: "string \<Rightarrow> xmlDocPtr" where
  "example_parse file =
     (if file = ''enc.xml'' then Some 10
      else if file = ''encxml.xml'' then Some 20
      else if file = ''empty.xml'' then Some 30
      else if file = ''bad.xml'' then Some 40
      else if file = ''nullres.xml'' then Some 50
      else if file = ''noroot.xml'' then Some 60
      else if file = ''doc.xml'' then Some 70
      else None)"

definition example_root :: "xmlDoc \<Rightarrow> xmlNodePtr" where
  "example_root doc = (if doc = 60 then None else Some (doc + 1))"

definition example_find :: "xmlNode \<Rightarrow> xmlSecName \<Rightarrow> xmlSecName \<Rightarrow> xmlNodePtr" where
  "example_find root name ns =
     (if name = xmlSecNodeEncryptedData \<and> ns = xmlSecEncNs \<and> root \<in> {11, 21, 31, 41, 51}
        then Some (root + 1)
      else if name = xmlSecNodeSignature \<and> ns = xmlSecDSigNs \<and> root = 71
        then Some (root + 1)
      else None)"

definition example_decrypt :: "xmlSecEncCtxRef \<Rightarrow> xmlNode \<Rightarrow> int \<times> xmlSecEncCtx" where
  "example_decrypt encCtx node =
     (if node = 12 then
        (0, \<lparr>result = Some \<lparr>buffer_data = Some [0x68, 0x69, 0x0A, 0x00], buffer_size = 3\<rparr>,
             resultReplaced = 0\<rparr>)
      else if node = 22 then
        (0, \<lparr>result = Some \<lparr>buffer_data = Some [0x3C, 0x61, 0x2F, 0x3E], buffer_size = 4\<rparr>,
             resultReplaced = 1\<rparr>)
      else if node = 32 then
        (0, \<lparr>result = Some \<lparr>buffer_data = None, buffer_size = 0\<rparr>, resultReplaced = 0\<rparr>)
      else if node = 52 then
        (0, \<lparr>result = None, resultReplaced = 0\<rparr>)
      else
        (- 1, \<lparr>result = None, resultReplaced = 0\<rparr>))"

definition example_lib :: lib where
  "example_lib =
     \<lparr>XMLSEC_NO_XSLT = False,
      XMLSEC_CRYPTO_DYNAMIC_LOADING = True,
      XMLSEC_CRYPTO = ''openssl'',
      XML_DETECT_IDS = 2,
      XML_COMPLETE_ATTRS = 4,
      xmlSecInit = 0,
      xmlSecCheckVersion = 1,
      xmlSecCryptoDLLoadLibrary = (\<lambda>name. 0),
      xmlSecCryptoAppInit = 0,
      xmlSecCryptoInit = 0,
      xmlSecKeysMngrCreate = Some 1,
      xmlSecCryptoAppDefaultKeysMngrInit = (\<lambda>mngr. 0),
      xmlSecCryptoAppKeyLoad = (\<lambda>file format. if file = ''key.pem'' then Some 2 else None),
      xmlSecCryptoAppDefaultKeysMngrAdoptKey = (\<lambda>mngr key. 0),
      xmlParseFile = example_parse,
      xmlDocGetRootElement = example_root,
      xmlSecFindNode = example_find,
      xmlSecEncCtxCreate = (\<lambda>mngr. Some 3),
      xmlSecEncCtxDecrypt = example_decrypt,
      xmlDocDump = (\<lambda>doc. [0x3C, 0x64, 0x2F, 0x3E, 0x0A]),
      xmlSecDSigCtxCreate = (\<lambda>mngr. Some 4),
      xmlSecCryptoAppKeyCertLoad = (\<lambda>key file format. 0),
      xmlSecKeySetName = (\<lambda>key name. 0),
      xmlSecDSigCtxSign = (\<lambda>dsigCtx node. 0)\<rparr>"

section \<open>Return values and standard output of each function\<close>

lemmas example_defs =
  example_lib_def example_parse_def example_root_def example_find_def example_decrypt_def

lemmas run_defs =
  decrypt3_main_def decrypt_file_def decrypt_file_done_def create_keys_mngr_def
  xmlsec_startup_def xmlsec_shutdown_def after_def sign3_main_def sign_file_def sign_file_done_def
  xmlSecBufferGetData_def xmlSecBufferGetSize_def

lemmas step_defs =
  startup_ok_def keys_mngr_loaded_def start_node_def unparsable_def node_missing_def
  decrypt_call_def decrypted_def signed_doc_def decrypt3_succeeds_def sign3_succeeds_def

lemma startup_fst: "fst (xmlsec_startup L) = (if startup_ok L then None else Some (- 1))"
  by (simp add: xmlsec_startup_def startup_ok_def after_def)

lemma create_keys_mngr_fst:
  "fst (create_keys_mngr L key_file) = map_option fst (keys_mngr_loaded L key_file)"
  by (simp add: create_keys_mngr_def keys_mngr_loaded_def after_def split: option.splits)

lemma decrypt_file_fst:
  "fst (decrypt_file L mngr enc_file) = (if decrypted L mngr enc_file = None then - 1 else 0)"
  by (auto simp add: decrypt_file_def decrypt_file_done_def decrypted_def decrypt_call_def
      start_node_def after_def Let_def split: option.splits prod.splits)

lemma sign_file_fst:
  "fst (sign_file L xml_file key_file cert_file) =
     (if signed_doc L xml_file key_file cert_file = None then - 1 else 0)"
  by (auto simp add: sign_file_def sign_file_done_def signed_doc_def start_node_def after_def
      Let_def split: option.splits prod.splits)

lemma decrypt3_main_fst:
  "fst (decrypt3_main L argv) =
     (if length argv \<noteq> 3 then 1 else if decrypt3_succeeds L argv then 0 else - 1)"
  by (auto simp add: decrypt3_main_def after_def startup_fst create_keys_mngr_fst
      decrypt_file_fst decrypt3_succeeds_def split: option.splits)

lemma sign3_main_fst:
  "fst (sign3_main L argv) =
     (if length argv \<noteq> 4 then 1 else if sign3_succeeds L argv then 0 else - 1)"
  by (auto simp add: sign3_main_def after_def startup_fst sign_file_fst sign3_succeeds_def
      split: option.splits)

text \<open>The trace of a whole run, in terms of the traces of its parts.\<close>

lemma decrypt3_main_trace:
  assumes "length argv = 3" and "startup_ok L"
  shows "snd (decrypt3_main L argv) =
           snd (xmlsec_startup L) @ snd (create_keys_mngr L (argv ! 2))
           @ (case keys_mngr_loaded L (argv ! 2) of
                None \<Rightarrow> []
              | Some (mngr, key) \<Rightarrow>
                  snd (decrypt_file L mngr (argv ! 1)) @ [Call_xmlSecKeysMngrDestroy mngr]
                  @ (if decrypted L mngr (argv ! 1) = None then [] else xmlsec_shutdown L))"
  using assms
  by (auto simp add: decrypt3_main_def after_def startup_fst create_keys_mngr_fst decrypt_file_fst
      split: option.splits)

lemma decrypt3_main_trace_early:
  "length argv = 3 \<Longrightarrow> \<not> startup_ok L \<Longrightarrow> snd (decrypt3_main L argv) = snd (xmlsec_startup L)"
  by (simp add: decrypt3_main_def after_def startup_fst)

lemma sign3_main_trace:
  assumes "length argv = 4"
  shows "snd (sign3_main L argv) =
           snd (xmlsec_startup L)
           @ (if startup_ok L then
                snd (sign_file L (argv ! 1) (argv ! 2) (argv ! 3))
                @ (if signed_doc L (argv ! 1) (argv ! 2) (argv ! 3) = None then []
                   else xmlsec_shutdown L)
              else [])"
  using assms
  by (auto simp add: sign3_main_def after_def startup_fst sign_file_fst split: option.splits)

lemma stdout_events_append: "stdout_events (s @ t) = stdout_events s @ stdout_events t"
  by (simp add: stdout_events_def)

lemma startup_stdout: "stdout_events (snd (xmlsec_startup L)) = []"
  by (simp add: xmlsec_startup_def after_def stdout_events_def is_stdout_def)

lemma shutdown_stdout: "stdout_events (xmlsec_shutdown L) = []"
  by (simp add: xmlsec_shutdown_def stdout_events_def is_stdout_def)

lemma create_keys_mngr_stdout: "stdout_events (snd (create_keys_mngr L key_file)) = []"
  by (simp add: create_keys_mngr_def after_def stdout_events_def is_stdout_def
      split: option.splits)

lemma decrypt_file_stdout:
  "stdout_events (snd (decrypt_file L mngr enc_file)) =
     (case decrypted L mngr enc_file of
        None \<Rightarrow> []
      | Some (doc, ctx, buf) \<Rightarrow>
          if resultReplaced ctx \<noteq> 0 then [Stdout_xmlDocDump doc]
          else (case xmlSecBufferGetData buf of
                  None \<Rightarrow> []
                | Some bytes \<Rightarrow> [Stdout_fwrite bytes (xmlSecBufferGetSize buf)]))"
  by (auto simp add: decrypt_file_def decrypt_file_done_def decrypted_def decrypt_call_def
      start_node_def after_def Let_def stdout_events_def is_stdout_def
      split: option.splits prod.splits)

lemma sign_file_stdout:
  "stdout_events (snd (sign_file L xml_file key_file cert_file)) =
     (case signed_doc L xml_file key_file cert_file of
        None \<Rightarrow> []
      | Some doc \<Rightarrow> [Stdout_xmlDocDump doc])"
  by (auto simp add: sign_file_def sign_file_done_def signed_doc_def
      start_node_def after_def Let_def stdout_events_def is_stdout_def
      split: option.splits prod.splits)

text \<open>Only the events on standard output contribute bytes to it.\<close>

lemma stdout_bytes_events: "stdout_bytes L t = stdout_bytes L (stdout_events t)"
proof (induction t)
  case Nil
  show ?case by (simp add: stdout_bytes_def stdout_events_def)
next
  case (Cons e t)
  then show ?case
    by (cases e) (simp_all add: stdout_bytes_def stdout_events_def is_stdout_def written_def)
qed

section \<open>Exit status\<close>

text \<open>
  Claim C1. The decrypt program returns 1 from \<^verbatim>\<open>main\<close> when the argument count is
  not 3, 0 when every step succeeds (start-up of the libraries, creation and loading of
  the keys manager, parsing, finding the node, creating the context, decrypting) and
  \<open>-1\<close> in every other case. The sign program does the same with an argument count
  of 4 and the steps of \<^verbatim>\<open>sign_file\<close>.
\<close>

theorem exit_status:
  "fst (decrypt3_main L argv) =
     (if length argv \<noteq> 3 then 1 else if decrypt3_succeeds L argv then 0 else - 1)
   \<and> fst (sign3_main L argv) =
     (if length argv \<noteq> 4 then 1 else if sign3_succeeds L argv then 0 else - 1)"
  by (simp add: decrypt3_main_fst sign3_main_fst)

theorem exit_status_witness:
  "fst (decrypt3_main example_lib [''decrypt3'', ''enc.xml'', ''key.pem'']) = 0
   \<and> fst (sign3_main example_lib [''decrypt3'', ''enc.xml'', ''key.pem'']) = 1
   \<and> fst (decrypt3_main example_lib [''sign3'', ''doc.xml'', ''key.pem'', ''cert.pem'']) = 1
   \<and> fst (sign3_main example_lib [''sign3'', ''doc.xml'', ''key.pem'', ''cert.pem'']) = 0
   \<and> fst (decrypt3_main example_lib [''decrypt3'', ''bad.xml'', ''key.pem'']) = - 1
   \<and> fst (sign3_main example_lib [''sign3'', ''doc.xml'', ''missing.pem'', ''cert.pem'']) = - 1"
  using exit_status [of example_lib "[''decrypt3'', ''enc.xml'', ''key.pem'']"]
        exit_status [of example_lib "[''sign3'', ''doc.xml'', ''key.pem'', ''cert.pem'']"]
        exit_status [of example_lib "[''decrypt3'', ''bad.xml'', ''key.pem'']"]
        exit_status [of example_lib "[''sign3'', ''doc.xml'', ''missing.pem'', ''cert.pem'']"]
  by (simp add: step_defs example_defs)

section \<open>What a successful decryption writes\<close>

text \<open>
  Claim C2. \<^verbatim>\<open>decrypt_file\<close> returns 0 only when the decrypt call succeeded and left a
  result buffer. Then standard output receives exactly one of two things: the dump of
  the document when the result-replaced flag is set (one call of \<^verbatim>\<open>xmlDocDump\<close> and
  nothing else), the bytes of the result buffer otherwise; there is at most one write.
\<close>

theorem decrypt_output:
  "(fst (decrypt_file L mngr enc_file) = 0 \<longrightarrow> decrypted L mngr enc_file \<noteq> None)
   \<and> (decrypted L mngr enc_file = Some (doc, ctx, buf) \<longrightarrow>
        fst (decrypt_file L mngr enc_file) = 0
        \<and> stdout_bytes L (snd (decrypt_file L mngr enc_file)) =
            (if resultReplaced ctx \<noteq> 0 then xmlDocDump L doc else buffer_bytes buf)
        \<and> length (stdout_events (snd (decrypt_file L mngr enc_file))) \<le> 1
        \<and> (resultReplaced ctx \<noteq> 0 \<longrightarrow>
             stdout_events (snd (decrypt_file L mngr enc_file)) = [Stdout_xmlDocDump doc]))"
proof -
  have "stdout_bytes L (snd (decrypt_file L mngr enc_file)) =
          (if resultReplaced ctx \<noteq> 0 then xmlDocDump L doc else buffer_bytes buf)"
    if "decrypted L mngr enc_file = Some (doc, ctx, buf)"
    using that
    by (subst stdout_bytes_events)
       (simp add: decrypt_file_stdout stdout_bytes_def written_def buffer_bytes_def
          split: option.splits)
  moreover have "length (stdout_events (snd (decrypt_file L mngr enc_file))) \<le> 1"
    by (simp add: decrypt_file_stdout split: option.splits prod.splits)
  moreover have "stdout_events (snd (decrypt_file L mngr enc_file)) = [Stdout_xmlDocDump doc]"
    if "decrypted L mngr enc_file = Some (doc, ctx, buf)" and "resultReplaced ctx \<noteq> 0"
    using that by (simp add: decrypt_file_stdout)
  ultimately show ?thesis
    by (simp add: decrypt_file_fst)
qed

theorem decrypt_output_witness:
  "decrypted example_lib 1 ''enc.xml'' \<noteq> None
   \<and> fst (decrypt_file example_lib 1 ''enc.xml'') = 0
   \<and> stdout_bytes example_lib (snd (decrypt_file example_lib 1 ''enc.xml'')) = [0x68, 0x69, 0x0A]
   \<and> stdout_bytes example_lib (snd (decrypt_file example_lib 1 ''encxml.xml''))
       = [0x3C, 0x64, 0x2F, 0x3E, 0x0A]
   \<and> stdout_events (snd (decrypt_file example_lib 1 ''encxml.xml'')) = [Stdout_xmlDocDump 20]"
  using decrypt_output [of example_lib 1 "''enc.xml''" 10
          "\<lparr>result = Some \<lparr>buffer_data = Some [0x68, 0x69, 0x0A, 0x00], buffer_size = 3\<rparr>,
            resultReplaced = 0\<rparr>"
          "\<lparr>buffer_data = Some [0x68, 0x69, 0x0A, 0x00], buffer_size = 3\<rparr>"]
        decrypt_output [of example_lib 1 "''encxml.xml''" 20
          "\<lparr>result = Some \<lparr>buffer_data = Some [0x3C, 0x61, 0x2F, 0x3E], buffer_size = 4\<rparr>,
            resultReplaced = 1\<rparr>"
          "\<lparr>buffer_data = Some [0x3C, 0x61, 0x2F, 0x3E], buffer_size = 4\<rparr>"]
  by (simp add: step_defs example_defs buffer_bytes_def xmlSecBufferGetData_def
      xmlSecBufferGetSize_def)

section \<open>Standard output of a whole run\<close>

lemma stdout_events_Nil: "stdout_events [] = []"
  by (simp add: stdout_events_def)

lemma stdout_events_Cons:
  "stdout_events (e # t) = (if is_stdout e then e # stdout_events t else stdout_events t)"
  by (simp add: stdout_events_def)

lemma decrypt3_main_stdout:
  "stdout_events (snd (decrypt3_main L argv)) =
     (if length argv = 3 \<and> startup_ok L then
        (case keys_mngr_loaded L (argv ! 2) of
           None \<Rightarrow> []
         | Some (mngr, key) \<Rightarrow> stdout_events (snd (decrypt_file L mngr (argv ! 1))))
      else [])"
proof (cases "length argv = 3")
  case False
  then show ?thesis
    by (simp add: decrypt3_main_def stdout_events_Nil stdout_events_Cons is_stdout_def)
next
  case True
  then show ?thesis
    by (auto simp add: decrypt3_main_def after_def stdout_events_append startup_stdout
        create_keys_mngr_stdout shutdown_stdout startup_fst create_keys_mngr_fst
        stdout_events_Nil stdout_events_Cons is_stdout_def
        split: option.splits)
qed

lemma sign3_main_stdout:
  "stdout_events (snd (sign3_main L argv)) =
     (if length argv = 4 \<and> startup_ok L
      then stdout_events (snd (sign_file L (argv ! 1) (argv ! 2) (argv ! 3)))
      else [])"
proof (cases "length argv = 4")
  case False
  then show ?thesis
    by (simp add: sign3_main_def stdout_events_Nil stdout_events_Cons is_stdout_def)
next
  case True
  then show ?thesis
    by (auto simp add: sign3_main_def after_def stdout_events_append startup_stdout
        shutdown_stdout startup_fst stdout_events_Nil split: option.splits)
qed

lemma key_load_fails_no_mngr:
  "xmlSecCryptoAppKeyLoad L key_file xmlSecKeyDataFormatPem = None \<Longrightarrow>
   keys_mngr_loaded L key_file = None"
  by (simp add: keys_mngr_loaded_def split: option.splits)

lemma node_missing_no_start:
  "node_missing L file name ns \<Longrightarrow> start_node L file name ns = None"
  by (auto simp add: node_missing_def start_node_def split: option.splits)

section \<open>No output when the key or the start node is missing\<close>

text \<open>
  Claim C5. In a run of either tool in which the key file does not load, or the document
  has a root element but no encrypted-data node (decrypt) or no signature node (sign),
  \<^verbatim>\<open>main\<close> returns a non-zero status and the run performs no write to standard output
  at all. Standard output is the only external state the programs change.
\<close>

theorem no_output_on_failure:
  "(length argv = 3
      \<and> (xmlSecCryptoAppKeyLoad L (argv ! 2) xmlSecKeyDataFormatPem = None
         \<or> node_missing L (argv ! 1) xmlSecNodeEncryptedData xmlSecEncNs)
    \<longrightarrow> fst (decrypt3_main L argv) \<noteq> 0 \<and> stdout_events (snd (decrypt3_main L argv)) = [])
   \<and> (length argv = 4
      \<and> (xmlSecCryptoAppKeyLoad L (argv ! 2) xmlSecKeyDataFormatPem = None
         \<or> node_missing L (argv ! 1) xmlSecNodeSignature xmlSecDSigNs)
    \<longrightarrow> fst (sign3_main L argv) \<noteq> 0 \<and> stdout_events (snd (sign3_main L argv)) = [])"
proof -
  have d: "decrypt3_succeeds L argv = False \<and> stdout_events (snd (decrypt3_main L argv)) = []"
    if "xmlSecCryptoAppKeyLoad L (argv ! 2) xmlSecKeyDataFormatPem = None
         \<or> node_missing L (argv ! 1) xmlSecNodeEncryptedData xmlSecEncNs"
    using that
    by (auto simp add: decrypt3_succeeds_def decrypt3_main_stdout decrypt_file_stdout
        key_load_fails_no_mngr decrypted_def decrypt_call_def node_missing_no_start
        split: option.splits)
  have s: "sign3_succeeds L argv = False \<and> stdout_events (snd (sign3_main L argv)) = []"
    if "xmlSecCryptoAppKeyLoad L (argv ! 2) xmlSecKeyDataFormatPem = None
         \<or> node_missing L (argv ! 1) xmlSecNodeSignature xmlSecDSigNs"
    using that
    by (auto simp add: sign3_succeeds_def sign3_main_stdout sign_file_stdout
        signed_doc_def node_missing_no_start split: option.splits)
  show ?thesis
    using d s by (simp add: decrypt3_main_fst sign3_main_fst)
qed

theorem no_output_on_failure_witness:
  "fst (decrypt3_main example_lib [''decrypt3'', ''enc.xml'', ''missing.pem'']) \<noteq> 0
   \<and> stdout_events (snd (decrypt3_main example_lib [''decrypt3'', ''enc.xml'', ''missing.pem''])) = []
   \<and> fst (decrypt3_main example_lib [''decrypt3'', ''doc.xml'', ''key.pem'']) \<noteq> 0
   \<and> stdout_events (snd (decrypt3_main example_lib [''decrypt3'', ''doc.xml'', ''key.pem''])) = []
   \<and> fst (sign3_main example_lib [''sign3'', ''doc.xml'', ''missing.pem'', ''cert.pem'']) \<noteq> 0
   \<and> stdout_events (snd (sign3_main example_lib [''sign3'', ''doc.xml'', ''missing.pem'', ''cert.pem''])) = []
   \<and> fst (sign3_main example_lib [''sign3'', ''enc.xml'', ''key.pem'', ''cert.pem'']) \<noteq> 0
   \<and> stdout_events (snd (sign3_main example_lib [''sign3'', ''enc.xml'', ''key.pem'', ''cert.pem''])) = []"
  using no_output_on_failure [of "[''decrypt3'', ''enc.xml'', ''missing.pem'']" example_lib]
        no_output_on_failure [of "[''decrypt3'', ''doc.xml'', ''key.pem'']" example_lib]
        no_output_on_failure [of "[''sign3'', ''doc.xml'', ''missing.pem'', ''cert.pem'']" example_lib]
        no_output_on_failure [of "[''sign3'', ''enc.xml'', ''key.pem'', ''cert.pem'']" example_lib]
  by (simp add: node_missing_def example_defs)

section \<open>A NULL result is a decryption failure\<close>

text \<open>
  Claim C8. When \<^verbatim>\<open>decrypt_file\<close> reaches the decrypt call and the call returns a
  negative status, or returns a non-negative status and leaves the result buffer of the
  context NULL, \<^verbatim>\<open>decrypt_file\<close> prints the message \<^verbatim>\<open>Error: decryption failed\<close>,
  writes nothing to standard output and returns a negative value: a NULL result is
  never a success.
\<close>

theorem decryption_failed:
  assumes "decrypt_call L mngr enc_file = Some (doc, encCtx, node, ret, ctx)"
    and "ret < 0 \<or> result ctx = None"
  shows "fst (decrypt_file L mngr enc_file) < 0
         \<and> stderr_messages (snd (decrypt_file L mngr enc_file)) = [''Error: decryption failed\<newline>'']
         \<and> stdout_events (snd (decrypt_file L mngr enc_file)) = []"
proof -
  from assms have n: "decrypted L mngr enc_file = None"
    by (auto simp add: decrypted_def)
  have "stderr_messages (snd (decrypt_file L mngr enc_file)) = [''Error: decryption failed\<newline>'']"
    using assms
    by (auto simp add: decrypt_file_def decrypt_file_done_def decrypt_call_def start_node_def
        after_def Let_def stderr_messages_def stderr_message_def
        split: option.splits prod.splits)
  then show ?thesis
    by (simp add: decrypt_file_fst decrypt_file_stdout n)
qed

theorem decryption_failed_witness:
  "fst (decrypt_file example_lib 1 ''nullres.xml'') < 0
   \<and> stderr_messages (snd (decrypt_file example_lib 1 ''nullres.xml'')) = [''Error: decryption failed\<newline>'']
   \<and> stdout_events (snd (decrypt_file example_lib 1 ''nullres.xml'')) = []
   \<and> fst (decrypt_file example_lib 1 ''bad.xml'') < 0
   \<and> stderr_messages (snd (decrypt_file example_lib 1 ''bad.xml'')) = [''Error: decryption failed\<newline>'']"
  using decryption_failed [of example_lib 1 "''nullres.xml''" 50 3 52 0 "\<lparr>result = None, resultReplaced = 0\<rparr>"]
        decryption_failed [of example_lib 1 "''bad.xml''" 40 3 42 "- 1" "\<lparr>result = None, resultReplaced = 0\<rparr>"]
  by (simp add: decrypt_call_def start_node_def example_defs)

section \<open>Output of a binary result\<close>

text \<open>
  Claim C9. In a run that decrypts successfully with the result-replaced flag clear,
  \<^verbatim>\<open>decrypt_file\<close> and \<^verbatim>\<open>main\<close> return 0, and standard output receives nothing when
  the data pointer of the result buffer is NULL and otherwise exactly one
  \<^verbatim>\<open>fwrite\<close> of the buffer's size in bytes from the buffer's data.
\<close>

theorem binary_result_output:
  assumes "length argv = 3" and "startup_ok L"
    and "keys_mngr_loaded L (argv ! 2) = Some (mngr, key)"
    and "decrypted L mngr (argv ! 1) = Some (doc, ctx, buf)"
    and "resultReplaced ctx = 0"
  shows "fst (decrypt_file L mngr (argv ! 1)) = 0
         \<and> fst (decrypt3_main L argv) = 0
         \<and> stdout_events (snd (decrypt3_main L argv)) =
             (case xmlSecBufferGetData buf of
                None \<Rightarrow> []
              | Some bytes \<Rightarrow> [Stdout_fwrite bytes (xmlSecBufferGetSize buf)])"
proof -
  have "fst (decrypt3_main L argv) = 0"
    using assms
    by (simp add: decrypt3_main_def after_def startup_fst create_keys_mngr_fst decrypt_file_fst)
  then show ?thesis
    using assms by (simp add: decrypt3_main_stdout decrypt_file_stdout decrypt_file_fst)
qed

theorem binary_result_output_witness:
  "fst (decrypt3_main example_lib [''decrypt3'', ''empty.xml'', ''key.pem'']) = 0
   \<and> stdout_events (snd (decrypt3_main example_lib [''decrypt3'', ''empty.xml'', ''key.pem''])) = []
   \<and> fst (decrypt3_main example_lib [''decrypt3'', ''enc.xml'', ''key.pem'']) = 0
   \<and> stdout_events (snd (decrypt3_main example_lib [''decrypt3'', ''enc.xml'', ''key.pem'']))
       = [Stdout_fwrite [0x68, 0x69, 0x0A, 0x00] 3]"
  using binary_result_output [of "[''decrypt3'', ''empty.xml'', ''key.pem'']" example_lib 1 2 30
          "\<lparr>result = Some \<lparr>buffer_data = None, buffer_size = 0\<rparr>, resultReplaced = 0\<rparr>"
          "\<lparr>buffer_data = None, buffer_size = 0\<rparr>"]
        binary_result_output [of "[''decrypt3'', ''enc.xml'', ''key.pem'']" example_lib 1 2 10
          "\<lparr>result = Some \<lparr>buffer_data = Some [0x68, 0x69, 0x0A, 0x00], buffer_size = 3\<rparr>,
            resultReplaced = 0\<rparr>"
          "\<lparr>buffer_data = Some [0x68, 0x69, 0x0A, 0x00], buffer_size = 3\<rparr>"]
  by (simp add: step_defs example_defs xmlSecBufferGetData_def xmlSecBufferGetSize_def)

section \<open>A document without a root element\<close>

text \<open>
  Claim C10. When the input file parses to a document that has no root element, both
  \<^verbatim>\<open>decrypt_file\<close> and \<^verbatim>\<open>sign_file\<close> print \<^verbatim>\<open>Error: unable to parse file\<close> with the
  file name and return a negative value, exactly as they do (under any library \<open>L'\<close>)
  when the file does not parse at all.
\<close>

theorem no_root_element:
  assumes "xmlParseFile L file = Some doc" and "xmlDocGetRootElement L doc = None"
  shows \<open>fst (decrypt_file L mngr file) < 0
         \<and> stderr_messages (snd (decrypt_file L mngr file))
             = [''Error: unable to parse file "'' @ file @ ''"\<newline>'']
         \<and> fst (sign_file L file key_file cert_file) < 0
         \<and> stderr_messages (snd (sign_file L file key_file cert_file))
             = [''Error: unable to parse file "'' @ file @ ''"\<newline>'']
         \<and> (xmlParseFile L' file = None \<longrightarrow>
              fst (decrypt_file L' mngr file) = fst (decrypt_file L mngr file)
              \<and> stderr_messages (snd (decrypt_file L' mngr file))
                  = stderr_messages (snd (decrypt_file L mngr file))
              \<and> fst (sign_file L' file key_file cert_file) = fst (sign_file L file key_file cert_file)
              \<and> stderr_messages (snd (sign_file L' file key_file cert_file))
                  = stderr_messages (snd (sign_file L file key_file cert_file)))\<close>
  using assms
  by (simp add: decrypt_file_def decrypt_file_done_def sign_file_def sign_file_done_def after_def
      stderr_messages_def stderr_message_def)

theorem no_root_element_witness:
  \<open>fst (decrypt_file example_lib 1 ''noroot.xml'') < 0
   \<and> stderr_messages (snd (decrypt_file example_lib 1 ''noroot.xml''))
       = [''Error: unable to parse file "noroot.xml"\<newline>'']
   \<and> fst (sign_file example_lib ''noroot.xml'' ''key.pem'' ''cert.pem'') < 0
   \<and> stderr_messages (snd (sign_file example_lib ''noroot.xml'' ''key.pem'' ''cert.pem''))
       = [''Error: unable to parse file "noroot.xml"\<newline>'']\<close>
  using no_root_element [of example_lib "''noroot.xml''" 60 1 "''key.pem''" "''cert.pem''" example_lib]
  by (simp add: example_defs)

section \<open>Shutdown order\<close>

lemmas layer_defs = is_shutdown_def shutdown_layer_def init_layer_def

lemma map_filter_append:
  "List.map_filter f (xs @ ys) = List.map_filter f xs @ List.map_filter f ys"
  by (simp add: List.map_filter_def)

lemma startup_no_shutdown: "filter is_shutdown (snd (xmlsec_startup L)) = []"
  by (simp add: xmlsec_startup_def after_def layer_defs)

lemma create_keys_mngr_no_shutdown: "filter is_shutdown (snd (create_keys_mngr L key_file)) = []"
  by (simp add: create_keys_mngr_def after_def layer_defs split: option.splits)

lemma decrypt_file_no_shutdown: "filter is_shutdown (snd (decrypt_file L mngr enc_file)) = []"
  by (simp add: decrypt_file_def decrypt_file_done_def after_def Let_def layer_defs
      split: option.splits prod.splits)

lemma sign_file_no_shutdown:
  "filter is_shutdown (snd (sign_file L xml_file key_file cert_file)) = []"
  by (simp add: sign_file_def sign_file_done_def after_def Let_def layer_defs
      split: option.splits prod.splits)

lemma startup_layers:
  "startup_ok L \<Longrightarrow>
   List.map_filter init_layer (snd (xmlsec_startup L)) = [Libxml, Xmlsec, Crypto, Xmlsec_crypto]"
  by (auto simp add: xmlsec_startup_def startup_ok_def after_def init_layer_def map_filter_append)

lemma create_keys_mngr_layers:
  "List.map_filter init_layer (snd (create_keys_mngr L key_file)) = []"
  by (simp add: create_keys_mngr_def after_def init_layer_def map_filter_append
      split: option.splits)

lemma decrypt_file_layers:
  "List.map_filter init_layer (snd (decrypt_file L mngr enc_file)) = []"
  by (simp add: decrypt_file_def decrypt_file_done_def after_def Let_def init_layer_def
      map_filter_append split: option.splits prod.splits)

lemma sign_file_layers:
  "List.map_filter init_layer (snd (sign_file L xml_file key_file cert_file)) = []"
  by (simp add: sign_file_def sign_file_done_def after_def Let_def init_layer_def
      map_filter_append split: option.splits prod.splits)

lemma shutdown_layers:
  "remdups_adj (List.map_filter shutdown_layer (xmlsec_shutdown L))
     = [Xmlsec_crypto, Crypto, Xmlsec, Libxml]
   \<and> list_all is_shutdown (xmlsec_shutdown L)"
  by (simp add: xmlsec_shutdown_def layer_defs)

lemma split_at_shutdown:
  assumes "filter is_shutdown pre = []"
  shows "before_shutdown (pre @ xmlsec_shutdown L) = pre"
    and "shutdown_part (pre @ xmlsec_shutdown L) = xmlsec_shutdown L"
proof -
  from assms have n: "\<And>e. e \<in> set pre \<Longrightarrow> \<not> is_shutdown e"
    by (simp add: filter_empty_conv)
  have "\<exists>rest. xmlsec_shutdown L = Call_xmlSecCryptoShutdown # rest"
    by (simp add: xmlsec_shutdown_def)
  then obtain rest where h: "xmlsec_shutdown L = Call_xmlSecCryptoShutdown # rest"
    by blast
  have s: "is_shutdown Call_xmlSecCryptoShutdown"
    by (simp add: layer_defs)
  show "before_shutdown (pre @ xmlsec_shutdown L) = pre"
    by (simp add: before_shutdown_def n h s)
  show "shutdown_part (pre @ xmlsec_shutdown L) = xmlsec_shutdown L"
    by (simp add: shutdown_part_def n h s)
qed

lemma orderly_shutdownI:
  assumes "filter is_shutdown pre = []"
    and "List.map_filter init_layer pre = [Libxml, Xmlsec, Crypto, Xmlsec_crypto]"
  shows "orderly_shutdown (pre @ xmlsec_shutdown L)"
proof -
  have "xmlsec_shutdown L \<noteq> []"
    by (simp add: xmlsec_shutdown_def)
  then show ?thesis
    unfolding orderly_shutdown_def split_at_shutdown [OF assms(1)]
    using shutdown_layers [of L]
    by (simp add: assms(2) stdout_events_append shutdown_stdout)
qed

lemma decrypt3_main_success_trace:
  assumes "fst (decrypt3_main L argv) = 0"
  shows "\<exists>mngr. startup_ok L \<and> snd (decrypt3_main L argv) =
           (snd (xmlsec_startup L) @ snd (create_keys_mngr L (argv ! 2))
            @ snd (decrypt_file L mngr (argv ! 1)) @ [Call_xmlSecKeysMngrDestroy mngr])
           @ xmlsec_shutdown L"
proof -
  from assms have len: "length argv = 3"
    by (auto simp add: decrypt3_main_def split: if_splits)
  show ?thesis
    using assms len
    by (auto simp add: decrypt3_main_def after_def startup_fst split: option.splits if_splits)
qed

lemma sign3_main_success_trace:
  assumes "fst (sign3_main L argv) = 0"
  shows "startup_ok L \<and> snd (sign3_main L argv) =
           (snd (xmlsec_startup L) @ snd (sign_file L (argv ! 1) (argv ! 2) (argv ! 3)))
           @ xmlsec_shutdown L"
proof -
  from assms have len: "length argv = 4"
    by (auto simp add: sign3_main_def split: if_splits)
  show ?thesis
    using assms len
    by (auto simp add: sign3_main_def after_def startup_fst split: option.splits if_splits)
qed

text \<open>
  Claim C7. On the success path of each program (\<^verbatim>\<open>main\<close> returns 0) the library
  shutdown calls form the end of the run, after every write to standard output, and
  they shut the layers down in the reverse order of their initialisation: xmlsec-crypto,
  then crypto, then xmlsec, then libxslt/libxml.
\<close>

theorem shutdown_after_output:
  "(fst (decrypt3_main L argv) = 0 \<longrightarrow> orderly_shutdown (snd (decrypt3_main L argv)))
   \<and> (fst (sign3_main L argv) = 0 \<longrightarrow> orderly_shutdown (snd (sign3_main L argv)))"
proof (intro conjI impI)
  assume "fst (decrypt3_main L argv) = 0"
  from decrypt3_main_success_trace [OF this] obtain mngr where
    ok: "startup_ok L" and
    t: "snd (decrypt3_main L argv) =
           (snd (xmlsec_startup L) @ snd (create_keys_mngr L (argv ! 2))
            @ snd (decrypt_file L mngr (argv ! 1)) @ [Call_xmlSecKeysMngrDestroy mngr])
           @ xmlsec_shutdown L"
    by blast
  show "orderly_shutdown (snd (decrypt3_main L argv))"
    unfolding t
    by (rule orderly_shutdownI)
       (simp_all add: startup_no_shutdown create_keys_mngr_no_shutdown decrypt_file_no_shutdown
          map_filter_append startup_layers [OF ok] create_keys_mngr_layers decrypt_file_layers
          layer_defs)
next
  assume "fst (sign3_main L argv) = 0"
  from sign3_main_success_trace [OF this] have
    ok: "startup_ok L" and
    t: "snd (sign3_main L argv) =
           (snd (xmlsec_startup L) @ snd (sign_file L (argv ! 1) (argv ! 2) (argv ! 3)))
           @ xmlsec_shutdown L"
    by blast+
  show "orderly_shutdown (snd (sign3_main L argv))"
    unfolding t
    by (rule orderly_shutdownI)
       (simp_all add: startup_no_shutdown sign_file_no_shutdown
          map_filter_append startup_layers [OF ok] sign_file_layers)
qed

theorem shutdown_after_output_witness:
  "fst (decrypt3_main example_lib [''decrypt3'', ''enc.xml'', ''key.pem'']) = 0
   \<and> shutdown_part (snd (decrypt3_main example_lib [''decrypt3'', ''enc.xml'', ''key.pem'']))
       = [Call_xmlSecCryptoShutdown, Call_xmlSecCryptoAppShutdown, Call_xmlSecShutdown,
          Call_xsltCleanupGlobals, Call_xmlCleanupParser]
   \<and> orderly_shutdown (snd (decrypt3_main example_lib [''decrypt3'', ''enc.xml'', ''key.pem'']))
   \<and> fst (sign3_main example_lib [''sign3'', ''doc.xml'', ''key.pem'', ''cert.pem'']) = 0
   \<and> orderly_shutdown (snd (sign3_main example_lib [''sign3'', ''doc.xml'', ''key.pem'', ''cert.pem'']))"
  using shutdown_after_output [of example_lib "[''decrypt3'', ''enc.xml'', ''key.pem'']"]
        shutdown_after_output [of example_lib "[''sign3'', ''doc.xml'', ''key.pem'', ''cert.pem'']"]
  by (simp add: run_defs example_defs shutdown_part_def layer_defs)

section \<open>Failure messages of the decrypt program\<close>

lemma stderr_messages_append:
  "stderr_messages (s @ t) = stderr_messages s @ stderr_messages t"
  by (simp add: stderr_messages_def map_filter_append)

lemma stderr_messages_simps:
  "stderr_messages [] = []"
  "stderr_messages (Stderr m # t) = m # stderr_messages t"
  "stderr_messages (Call_xmlSecKeysMngrDestroy mngr # t) = stderr_messages t"
  by (simp_all add: stderr_messages_def stderr_message_def)

lemma startup_stderr: "startup_ok L \<Longrightarrow> stderr_messages (snd (xmlsec_startup L)) = []"
  by (auto simp add: xmlsec_startup_def startup_ok_def after_def stderr_messages_def
      stderr_message_def)

lemma create_keys_mngr_stderr:
  \<open>stderr_messages (snd (create_keys_mngr L key_file)) =
     (case xmlSecKeysMngrCreate L of
        None \<Rightarrow> [''Error: failed to create keys manager.\<newline>'']
      | Some mngr \<Rightarrow>
          if xmlSecCryptoAppDefaultKeysMngrInit L mngr < 0
          then [''Error: failed to initialize keys manager.\<newline>'']
          else (case xmlSecCryptoAppKeyLoad L key_file xmlSecKeyDataFormatPem of
                  None \<Rightarrow> [''Error: failed to load rsa key from file "'' @ key_file @ ''"\<newline>'']
                | Some key \<Rightarrow>
                    if xmlSecCryptoAppDefaultKeysMngrAdoptKey L mngr key < 0
                    then [''Error: failed to add key from "'' @ key_file @ ''" to keys manager\<newline>'']
                    else []))\<close>
  by (simp add: create_keys_mngr_def after_def stderr_messages_def stderr_message_def
      split: option.splits)

lemma decrypt_file_stderr:
  \<open>stderr_messages (snd (decrypt_file L mngr enc_file)) =
     (if unparsable L enc_file
        then [''Error: unable to parse file "'' @ enc_file @ ''"\<newline>'']
      else if node_missing L enc_file xmlSecNodeEncryptedData xmlSecEncNs
        then [''Error: start node not found in "'' @ enc_file @ ''"\<newline>'']
      else (case decrypt_call L mngr enc_file of
              None \<Rightarrow> [''Error: failed to create encryption context\<newline>'']
            | Some (doc, encCtx, node, ret, ctx) \<Rightarrow>
                if ret < 0 \<or> result ctx = None then [''Error: decryption failed\<newline>'']
                else []))\<close>
  by (auto simp add: decrypt_file_def decrypt_file_done_def after_def Let_def
      unparsable_def node_missing_def decrypt_call_def start_node_def
      stderr_messages_def stderr_message_def split: option.splits prod.splits)

lemma failure_message_distinct:
  "c' \<noteq> c \<Longrightarrow> failure_message c' enc_file' key_file' \<noteq> failure_message c enc_file key_file"
  by (cases c; cases c') (simp_all add: failure_message_def)

lemma decrypted_None_if:
  "unparsable L f \<Longrightarrow> decrypted L mngr f = None"
  "node_missing L f xmlSecNodeEncryptedData xmlSecEncNs \<Longrightarrow> decrypted L mngr f = None"
  "decrypt_call L mngr f = Some (doc, encCtx, node, ret, ctx) \<Longrightarrow> ret < 0 \<or> result ctx = None
     \<Longrightarrow> decrypted L mngr f = None"
  by (auto simp add: decrypted_def decrypt_call_def start_node_def unparsable_def node_missing_def
      split: option.splits)

lemma not_both:
  "unparsable L f \<Longrightarrow> \<not> node_missing L f name ns"
  "decrypt_call L mngr f = Some x \<Longrightarrow> \<not> unparsable L f"
  "decrypt_call L mngr f = Some x \<Longrightarrow> \<not> node_missing L f xmlSecNodeEncryptedData xmlSecEncNs"
  by (auto simp add: decrypt_call_def start_node_def unparsable_def node_missing_def
      split: option.splits)

text \<open>
  Claim C3 as stated fails at one point. When the key file does not load, the function
  that fails is \<^verbatim>\<open>create_keys_mngr\<close>; it returns a pointer, and the value it returns is
  NULL, not a negative number.
\<close>

theorem key_load_failure_returns_null:
  "failure_occurs example_lib [''decrypt3'', ''enc.xml'', ''missing.pem''] Key_load_failure
   \<and> failing_return example_lib [''decrypt3'', ''enc.xml'', ''missing.pem''] = Pointer_value None
   \<and> \<not> negative (failing_return example_lib [''decrypt3'', ''enc.xml'', ''missing.pem''])"
  by (simp add: failure_occurs_def failing_return_def negative_def startup_ok_def
      create_keys_mngr_def after_def example_defs)

text \<open>
  Claim C3, amended. Each of the four failure conditions of the decrypt program
  (unparsable XML, missing encrypted-data node, key load failure, decryption failure)
  makes the run print exactly one message on standard error, the message of that
  condition; the failing function reports the failure by its return value, which is NULL
  for \<^verbatim>\<open>create_keys_mngr\<close> on a key load failure and negative for \<^verbatim>\<open>decrypt_file\<close> on
  the other three; \<^verbatim>\<open>main\<close> returns a non-zero status; and the message of one condition
  is never the message of another, whatever the file names.
\<close>

theorem failure_reports:
  assumes "length argv = 3" and "failure_occurs L argv c"
  shows "stderr_messages (snd (decrypt3_main L argv)) = [failure_message c (argv ! 1) (argv ! 2)]
         \<and> (c = Key_load_failure \<longrightarrow> failing_return L argv = Pointer_value None)
         \<and> (c \<noteq> Key_load_failure \<longrightarrow> negative (failing_return L argv))
         \<and> fst (decrypt3_main L argv) \<noteq> 0
         \<and> (\<forall>c' enc_file' key_file'. c' \<noteq> c \<longrightarrow>
              failure_message c' enc_file' key_file' \<noteq> failure_message c (argv ! 1) (argv ! 2))"
proof -
  from assms(2) have ok: "startup_ok L"
    by (simp add: failure_occurs_def)
  note t = decrypt3_main_trace [OF assms(1) ok]
  have e: "fst (decrypt3_main L argv) = (if decrypt3_succeeds L argv then 0 else - 1)"
    using assms(1) by (simp add: decrypt3_main_fst)
  have main: "stderr_messages (snd (decrypt3_main L argv)) = [failure_message c (argv ! 1) (argv ! 2)]
         \<and> (c = Key_load_failure \<longrightarrow> failing_return L argv = Pointer_value None)
         \<and> (c \<noteq> Key_load_failure \<longrightarrow> negative (failing_return L argv))
         \<and> \<not> decrypt3_succeeds L argv"
  proof (cases c)
    case Key_load_failure
    with assms(2) show ?thesis
      by (auto simp add: t failure_occurs_def stderr_messages_append startup_stderr
          create_keys_mngr_stderr failure_message_def failing_return_def create_keys_mngr_fst
          keys_mngr_loaded_def decrypt3_succeeds_def stderr_messages_simps
          split: option.splits)
  next
    case Unparsable_xml
    with assms(2) show ?thesis
      by (auto simp add: t failure_occurs_def stderr_messages_append startup_stderr
          create_keys_mngr_stderr decrypt_file_stderr stderr_messages_simps
          failure_message_def failing_return_def create_keys_mngr_fst decrypt_file_fst
          negative_def decrypted_None_if decrypt3_succeeds_def
          keys_mngr_loaded_def split: option.splits if_splits)
  next
    case Missing_encrypted_data
    with assms(2) show ?thesis
      by (auto simp add: t failure_occurs_def stderr_messages_append startup_stderr
          create_keys_mngr_stderr decrypt_file_stderr stderr_messages_simps not_both
          failure_message_def failing_return_def create_keys_mngr_fst decrypt_file_fst
          negative_def decrypted_None_if decrypt3_succeeds_def
          keys_mngr_loaded_def split: option.splits if_splits)
  next
    case Decryption_failure
    with assms(2) show ?thesis
      by (auto simp add: t failure_occurs_def stderr_messages_append startup_stderr
          create_keys_mngr_stderr decrypt_file_stderr stderr_messages_simps not_both
          failure_message_def failing_return_def create_keys_mngr_fst decrypt_file_fst
          negative_def decrypted_None_if decrypt3_succeeds_def
          keys_mngr_loaded_def split: option.splits if_splits)
  qed
  then show ?thesis
    by (simp add: e failure_message_distinct)
qed

theorem failure_reports_witness:
  \<open>stderr_messages (snd (decrypt3_main example_lib [''decrypt3'', ''bogus.xml'', ''key.pem'']))
     = [''Error: unable to parse file "bogus.xml"\<newline>'']
   \<and> stderr_messages (snd (decrypt3_main example_lib [''decrypt3'', ''doc.xml'', ''key.pem'']))
     = [''Error: start node not found in "doc.xml"\<newline>'']
   \<and> stderr_messages (snd (decrypt3_main example_lib [''decrypt3'', ''enc.xml'', ''missing.pem'']))
     = [''Error: failed to load rsa key from file "missing.pem"\<newline>'']
   \<and> stderr_messages (snd (decrypt3_main example_lib [''decrypt3'', ''bad.xml'', ''key.pem'']))
     = [''Error: decryption failed\<newline>'']
   \<and> failing_return example_lib [''decrypt3'', ''enc.xml'', ''missing.pem''] = Pointer_value None
   \<and> negative (failing_return example_lib [''decrypt3'', ''bad.xml'', ''key.pem''])
   \<and> fst (decrypt3_main example_lib [''decrypt3'', ''bad.xml'', ''key.pem'']) \<noteq> 0\<close>
  using failure_reports [of "[''decrypt3'', ''bogus.xml'', ''key.pem'']" example_lib Unparsable_xml]
        failure_reports [of "[''decrypt3'', ''doc.xml'', ''key.pem'']" example_lib Missing_encrypted_data]
        failure_reports [of "[''decrypt3'', ''enc.xml'', ''missing.pem'']" example_lib Key_load_failure]
        failure_reports [of "[''decrypt3'', ''bad.xml'', ''key.pem'']" example_lib Decryption_failure]
  by (simp add: failure_occurs_def failure_message_def step_defs example_defs)

section \<open>The life of the keys manager\<close>

lemma mngr_history_append: "mngr_history (s @ t) = mngr_history s @ mngr_history t"
  by (simp add: mngr_history_def)

lemma mngr_history_simps:
  "mngr_history [] = []"
  "mngr_history (Stderr m # t) = mngr_history t"
  "mngr_history (Call_xmlSecKeysMngrDestroy mngr # t) =
     Call_xmlSecKeysMngrDestroy mngr # mngr_history t"
  by (simp_all add: mngr_history_def mngr_event_def)

lemma startup_mngr_history: "mngr_history (snd (xmlsec_startup L)) = []"
  by (simp add: xmlsec_startup_def after_def mngr_history_def mngr_event_def)

lemma shutdown_mngr_history: "mngr_history (xmlsec_shutdown L) = []"
  by (simp add: xmlsec_shutdown_def mngr_history_def mngr_event_def)

lemma create_keys_mngr_mngr_history:
  "mngr_history (snd (create_keys_mngr L key_file)) =
     Call_xmlSecKeysMngrCreate (xmlSecKeysMngrCreate L) #
     (case xmlSecKeysMngrCreate L of
        None \<Rightarrow> []
      | Some mngr \<Rightarrow>
          Call_xmlSecCryptoAppDefaultKeysMngrInit mngr #
          (if xmlSecCryptoAppDefaultKeysMngrInit L mngr < 0 then [Call_xmlSecKeysMngrDestroy mngr]
           else
             Call_xmlSecCryptoAppKeyLoad key_file
               (xmlSecCryptoAppKeyLoad L key_file xmlSecKeyDataFormatPem) #
             (case xmlSecCryptoAppKeyLoad L key_file xmlSecKeyDataFormatPem of
                None \<Rightarrow> [Call_xmlSecKeysMngrDestroy mngr]
              | Some key \<Rightarrow>
                  Call_xmlSecCryptoAppDefaultKeysMngrAdoptKey mngr key #
                  (if xmlSecCryptoAppDefaultKeysMngrAdoptKey L mngr key < 0
                   then [Call_xmlSecKeyDestroy key, Call_xmlSecKeysMngrDestroy mngr]
                   else []))))"
  by (simp add: create_keys_mngr_def after_def mngr_history_def mngr_event_def
      split: option.splits)

lemma decrypt_file_mngr_history:
  "mngr_history (snd (decrypt_file L mngr enc_file)) =
     (case start_node L enc_file xmlSecNodeEncryptedData xmlSecEncNs of
        None \<Rightarrow> []
      | Some (doc, node) \<Rightarrow>
          Call_xmlSecEncCtxCreate (Some mngr) (xmlSecEncCtxCreate L (Some mngr)) #
          (case xmlSecEncCtxCreate L (Some mngr) of
             None \<Rightarrow> []
           | Some encCtx \<Rightarrow> [Call_xmlSecEncCtxDecrypt encCtx node]))"
  by (simp add: decrypt_file_def decrypt_file_done_def after_def Let_def start_node_def
      mngr_history_def mngr_event_def split: option.splits prod.splits)

lemma decrypt3_main_mngr_history:
  "mngr_history (snd (decrypt3_main L argv)) =
     (if length argv = 3 \<and> startup_ok L then
        mngr_history (snd (create_keys_mngr L (argv ! 2)))
        @ (case keys_mngr_loaded L (argv ! 2) of
             None \<Rightarrow> []
           | Some (mngr, key) \<Rightarrow>
               mngr_history (snd (decrypt_file L mngr (argv ! 1)))
               @ [Call_xmlSecKeysMngrDestroy mngr])
      else [])"
proof (cases "length argv = 3")
  case False
  then show ?thesis
    by (simp add: decrypt3_main_def mngr_history_simps)
next
  case len: True
  show ?thesis
  proof (cases "startup_ok L")
    case False
    with len show ?thesis
      by (simp add: decrypt3_main_trace_early startup_mngr_history)
  next
    case True
    with len show ?thesis
      by (simp add: decrypt3_main_trace mngr_history_append startup_mngr_history
          shutdown_mngr_history mngr_history_simps split: option.splits)
  qed
qed

lemma mngr_event_if:
  "is_decrypt e \<Longrightarrow> mngr_event e"
  "is_mngr_destroy e \<Longrightarrow> mngr_event e"
  "is_mngr_create e \<Longrightarrow> mngr_event e"
  by (cases e; simp add: mngr_event_def is_decrypt_def is_mngr_destroy_def is_mngr_create_def)+

lemma filter_mngr_history:
  assumes "\<And>e. P e \<Longrightarrow> mngr_event e"
  shows "filter P (mngr_history t) = filter P t"
  using assms by (induction t) (auto simp add: mngr_history_def)

lemma list_ex_mngr_history:
  assumes "\<And>e. P e \<Longrightarrow> mngr_event e"
  shows "list_ex P (mngr_history t) = list_ex P t"
  using assms by (auto simp add: list_ex_iff mngr_history_def)

text \<open>
  Claim C6 as stated fails. A run on a well-formed document without an encrypted-data
  node reaches the keys-manager stage: the manager is created and one key is put into
  it. The run then fails in \<^verbatim>\<open>decrypt_file\<close> before the decrypt call, so the manager is
  used for no decrypt operation, not for exactly one, and is destroyed unused.
\<close>

theorem keys_mngr_unused_without_node:
  "reaches_keys_mngr_stage (snd (decrypt3_main example_lib [''decrypt3'', ''doc.xml'', ''key.pem'']))
   \<and> count_events is_adopt_key
        (snd (decrypt3_main example_lib [''decrypt3'', ''doc.xml'', ''key.pem''])) = 1
   \<and> count_events is_decrypt
        (snd (decrypt3_main example_lib [''decrypt3'', ''doc.xml'', ''key.pem''])) = 0
   \<and> count_events is_decrypt
        (snd (decrypt3_main example_lib [''decrypt3'', ''doc.xml'', ''key.pem''])) \<noteq> 1
   \<and> fst (decrypt3_main example_lib [''decrypt3'', ''doc.xml'', ''key.pem'']) = - 1
   \<and> mngr_history (snd (decrypt3_main example_lib [''decrypt3'', ''doc.xml'', ''key.pem'']))
       = [Call_xmlSecKeysMngrCreate (Some 1),
          Call_xmlSecCryptoAppDefaultKeysMngrInit 1,
          Call_xmlSecCryptoAppKeyLoad ''key.pem'' (Some 2),
          Call_xmlSecCryptoAppDefaultKeysMngrAdoptKey 1 2,
          Call_xmlSecKeysMngrDestroy 1]"
  by (simp add: run_defs example_defs reaches_keys_mngr_stage_def count_events_def
      is_mngr_create_def is_adopt_key_def is_decrypt_def mngr_history_def mngr_event_def)

text \<open>
  Claim C6, amended. In every run of the decrypt program that reaches the decrypt call
  (the success path, and the failure path on which the decrypt call itself fails), the
  keys manager is created, initialised, given exactly one key, the one loaded from the
  key-file argument, bound to one encryption context, used for exactly one decrypt call
  and then destroyed, in this order and with no other event on the manager. In every run
  that creates a manager, also one that fails before the decrypt call, the manager is
  destroyed exactly once, as the last event on it.
\<close>

theorem keys_mngr_life:
  "(list_ex is_decrypt (snd (decrypt3_main L argv)) \<longrightarrow>
      (\<exists>mngr key encCtx node.
         mngr_history (snd (decrypt3_main L argv)) = mngr_life (argv ! 2) mngr key encCtx node))
   \<and> (list_ex is_mngr_create (snd (decrypt3_main L argv)) \<and> xmlSecKeysMngrCreate L = Some mngr' \<longrightarrow>
        filter is_mngr_destroy (snd (decrypt3_main L argv)) = [Call_xmlSecKeysMngrDestroy mngr']
        \<and> last (mngr_history (snd (decrypt3_main L argv))) = Call_xmlSecKeysMngrDestroy mngr')"
proof -
  have d: "list_ex is_decrypt (snd (decrypt3_main L argv))
           = list_ex is_decrypt (mngr_history (snd (decrypt3_main L argv)))"
    by (simp add: list_ex_mngr_history mngr_event_if)
  have c: "list_ex is_mngr_create (snd (decrypt3_main L argv))
           = list_ex is_mngr_create (mngr_history (snd (decrypt3_main L argv)))"
    by (simp add: list_ex_mngr_history mngr_event_if)
  have k: "filter is_mngr_destroy (snd (decrypt3_main L argv))
           = filter is_mngr_destroy (mngr_history (snd (decrypt3_main L argv)))"
    by (simp add: filter_mngr_history mngr_event_if)
  show ?thesis
    unfolding d c k decrypt3_main_mngr_history
    by (auto simp add: create_keys_mngr_mngr_history decrypt_file_mngr_history mngr_life_def
        keys_mngr_loaded_def is_decrypt_def is_mngr_create_def is_mngr_destroy_def
        split: option.splits if_splits)
qed

theorem keys_mngr_life_witness:
  "list_ex is_decrypt (snd (decrypt3_main example_lib [''decrypt3'', ''enc.xml'', ''key.pem'']))
   \<and> mngr_history (snd (decrypt3_main example_lib [''decrypt3'', ''enc.xml'', ''key.pem'']))
       = mngr_life ''key.pem'' 1 2 3 12
   \<and> list_ex is_decrypt (snd (decrypt3_main example_lib [''decrypt3'', ''bad.xml'', ''key.pem'']))
   \<and> mngr_history (snd (decrypt3_main example_lib [''decrypt3'', ''bad.xml'', ''key.pem'']))
       = mngr_life ''key.pem'' 1 2 3 42
   \<and> list_ex is_mngr_create
        (snd (decrypt3_main example_lib [''decrypt3'', ''bogus.xml'', ''key.pem'']))
   \<and> filter is_mngr_destroy
        (snd (decrypt3_main example_lib [''decrypt3'', ''bogus.xml'', ''key.pem'']))
       = [Call_xmlSecKeysMngrDestroy 1]"
  using keys_mngr_life [of example_lib "[''decrypt3'', ''enc.xml'', ''key.pem'']" 1]
        keys_mngr_life [of example_lib "[''decrypt3'', ''bad.xml'', ''key.pem'']" 1]
        keys_mngr_life [of example_lib "[''decrypt3'', ''bogus.xml'', ''key.pem'']" 1]
  by (simp add: run_defs example_defs mngr_life_def mngr_history_def mngr_event_def
      is_decrypt_def is_mngr_create_def is_mngr_destroy_def)

section \<open>Resources held at exit\<close>

lemmas resource_defs = step_live_def released_by_def acquired_by_def

lemma live_append: "live rs (s @ t) = live (live rs s) t"
  by (induction s arbitrary: rs) simp_all

lemma startup_live: "live rs (snd (xmlsec_startup L)) = rs"
  by (simp add: xmlsec_startup_def after_def live_append resource_defs)

lemma shutdown_live: "live rs (xmlsec_shutdown L) = rs"
  by (simp add: xmlsec_shutdown_def live_append resource_defs)

lemma create_keys_mngr_live:
  "live [] (snd (create_keys_mngr L key_file)) =
     (case keys_mngr_loaded L key_file of None \<Rightarrow> [] | Some (mngr, key) \<Rightarrow> [Keys_manager mngr])"
  by (simp add: create_keys_mngr_def keys_mngr_loaded_def after_def resource_defs
      split: option.splits)

lemma decrypt_file_live:
  "live [Keys_manager mngr] (snd (decrypt_file L mngr enc_file)) =
     Keys_manager mngr #
     (case start_node L enc_file xmlSecNodeEncryptedData xmlSecEncNs of
        None \<Rightarrow> []
      | Some (doc, node) \<Rightarrow>
          (case xmlSecEncCtxCreate L (Some mngr) of
             None \<Rightarrow> []
           | Some encCtx \<Rightarrow> [Encryption_context encCtx]))"
  by (simp add: decrypt_file_def decrypt_file_done_def after_def Let_def start_node_def
      resource_defs split: option.splits prod.splits)

lemma sign_file_live: "live [] (snd (sign_file L xml_file key_file cert_file)) = []"
  by (simp add: sign_file_def sign_file_done_def after_def Let_def resource_defs
      split: option.splits prod.splits)

text \<open>
  What the decrypt program still holds when \<^verbatim>\<open>main\<close> returns: the document and the keys
  manager are released on every path, the encryption context on none.
\<close>

lemma decrypt3_main_leaked:
  "leaked (snd (decrypt3_main L argv)) =
     (if length argv = 3 \<and> startup_ok L then
        (case keys_mngr_loaded L (argv ! 2) of
           None \<Rightarrow> []
         | Some (mngr, key) \<Rightarrow>
             (case start_node L (argv ! 1) xmlSecNodeEncryptedData xmlSecEncNs of
                None \<Rightarrow> []
              | Some (doc, node) \<Rightarrow>
                  (case xmlSecEncCtxCreate L (Some mngr) of
                     None \<Rightarrow> []
                   | Some encCtx \<Rightarrow> [Encryption_context encCtx])))
      else [])"
proof (cases "length argv = 3")
  case False
  then show ?thesis
    by (simp add: decrypt3_main_def leaked_def resource_defs)
next
  case len: True
  show ?thesis
  proof (cases "startup_ok L")
    case False
    with len show ?thesis
      by (simp add: decrypt3_main_trace_early leaked_def startup_live)
  next
    case True
    with len show ?thesis
      by (simp add: decrypt3_main_trace leaked_def live_append startup_live shutdown_live
          create_keys_mngr_live decrypt_file_live resource_defs split: option.splits)
  qed
qed

text \<open>The sign program holds nothing when \<^verbatim>\<open>main\<close> returns.\<close>

lemma sign3_main_leaked: "leaked (snd (sign3_main L argv)) = []"
proof (cases "length argv = 4")
  case False
  then show ?thesis
    by (simp add: sign3_main_def leaked_def resource_defs)
next
  case True
  then show ?thesis
    by (simp add: sign3_main_trace leaked_def live_append startup_live shutdown_live
        sign_file_live)
qed

text \<open>
  Claim C4. The claim is that on every exit path every resource acquired in the run (the
  parsed document, the encryption or signature context, the keys manager) is released
  before the function returns. The sign program does so, and the decrypt program does so
  for the document and the keys manager (the two lemmas above). The decrypt program
  never releases the encryption context: at the label \<^verbatim>\<open>done\<close> the call
  \<^verbatim>\<open>xmlSecEncCtxDestroy(encCtx)\<close> is commented out. Here the programs are run: after a
  successful decryption and after a failed one the context is still held when \<^verbatim>\<open>main\<close>
  returns, while a signing run holds nothing.
\<close>

theorem encryption_context_leaked:
  "fst (decrypt3_main example_lib [''decrypt3'', ''enc.xml'', ''key.pem'']) = 0
   \<and> leaked (snd (decrypt3_main example_lib [''decrypt3'', ''enc.xml'', ''key.pem'']))
       = [Encryption_context 3]
   \<and> fst (decrypt3_main example_lib [''decrypt3'', ''bad.xml'', ''key.pem'']) = - 1
   \<and> leaked (snd (decrypt3_main example_lib [''decrypt3'', ''bad.xml'', ''key.pem'']))
       = [Encryption_context 3]
   \<and> leaked (snd (sign3_main example_lib [''sign3'', ''doc.xml'', ''key.pem'', ''cert.pem''])) = []"
  by (simp add: run_defs example_defs leaked_def resource_defs)

end
